theory Spec2Isabelle
  imports Complex_Main
begin

section \<open>Python values, exceptions and the builtins the pipeline calls\<close>

text \<open>
  \<^verbatim>\<open>hist_generation/polygon_to_mysql.py\<close> works on untyped Python values: what
  \<^verbatim>\<open>yaml.safe_load\<close> returns for the configuration document and what the provider's
  client yields for a record. The values are \<open>None\<close>, booleans, unbounded integers,
  floats, strings, lists, dictionaries with string keys (association lists, the first
  binding of a key is the one in force) and any other object, given by its attributes.
  The type \<open>'f\<close> is the type of floats: IEEE arithmetic is not modelled, every
  operation on a float is taken from the runtime below.

  Strings are lists of code points below 256.
\<close>

datatype 'f pyval =
    PNone
  | PBool bool
  | PInt int
  | PFloat 'f
  | PStr string
  | PList "'f pyval list"
  | PDict "(string \<times> 'f pyval) list"
  | PObj "(string \<times> 'f pyval) list"

type_synonym 'f dict = "(string \<times> 'f pyval) list"

text \<open>
  An exception is a value. The text of an exception raised by a builtin is abridged;
  the text of an exception the program raises itself is the program's.
\<close>

datatype error =
    ValueError string
  | TypeError string
  | OverflowError string
  | AttributeError string
  | KeyError string
  | OtherError string

text \<open>
  The builtins whose result depends on the text of a string, on a float or on the
  calendar are parameters of the model: \<open>float(i)\<close>, \<open>float(s)\<close>, \<open>int(f)\<close>,
  \<open>int(s)\<close>, the truth value of a float, \<open>str\<close> of a float, a list, a dictionary or
  an object, and \<open>datetime.fromtimestamp(ms / 1000, tz=timezone.utc).replace(tzinfo=None)\<close>
  as a function of \<open>ms\<close>. Each one either returns or raises.
\<close>

record ('f, 'd) runtime =
  float_of_int :: "int \<Rightarrow> error + 'f"
  float_of_str :: "string \<Rightarrow> error + 'f"
  int_of_float :: "'f \<Rightarrow> error + int"
  int_of_str :: "string \<Rightarrow> error + int"
  float_nonzero :: "'f \<Rightarrow> bool"
  repr_of :: "'f pyval \<Rightarrow> string"
  utc_datetime :: "int \<Rightarrow> error + 'd"

subsection \<open>Dictionaries\<close>

definition dict_get :: "'f dict \<Rightarrow> string \<Rightarrow> 'f pyval option" where
  \<comment> \<open>\<open>k in d\<close> and \<open>d[k]\<close>: \<open>None\<close> when the key is absent.\<close>
  "dict_get d k = map_of d k"

definition dict_index :: "'f dict \<Rightarrow> string \<Rightarrow> error + 'f pyval" where
  \<comment> \<open>\<open>d[k]\<close> as an expression: \<open>KeyError\<close> when the key is absent.\<close>
  "dict_index d k = (case map_of d k of None \<Rightarrow> Inl (KeyError k) | Some v \<Rightarrow> Inr v)"

definition get_or :: "'f dict \<Rightarrow> string \<Rightarrow> 'f pyval \<Rightarrow> 'f pyval" where
  \<comment> \<open>\<open>d.get(k, default)\<close>; \<open>d.get(k)\<close> is \<open>get_or d k PNone\<close>.\<close>
  "get_or d k dflt = (case map_of d k of None \<Rightarrow> dflt | Some v \<Rightarrow> v)"

fun dict_set :: "'f dict \<Rightarrow> string \<Rightarrow> 'f pyval \<Rightarrow> 'f dict" where
  \<comment> \<open>\<open>d[k] = v\<close>: an existing key keeps its place, a new key goes last.\<close>
  "dict_set [] k v = [(k, v)]"
| "dict_set ((k', v') # d) k v = (if k' = k then (k, v) # d else (k', v') # dict_set d k v)"

definition setdefault :: "'f dict \<Rightarrow> string \<Rightarrow> 'f pyval \<Rightarrow> 'f dict" where
  \<comment> \<open>\<open>d.setdefault(k, v)\<close>: only an absent key is set; a key bound to \<open>None\<close> stays.\<close>
  "setdefault d k v = (case map_of d k of None \<Rightarrow> dict_set d k v | Some _ \<Rightarrow> d)"

subsection \<open>Truth values, \<open>int\<close>, \<open>float\<close>, \<open>str\<close>\<close>

fun truthy :: "('f, 'd) runtime \<Rightarrow> 'f pyval \<Rightarrow> bool" where
  \<comment> \<open>\<open>bool(v)\<close>; an object without \<open>__bool__\<close> and \<open>__len__\<close> is true.\<close>
  "truthy rt PNone = False"
| "truthy rt (PBool b) = b"
| "truthy rt (PInt i) = (i \<noteq> 0)"
| "truthy rt (PFloat f) = float_nonzero rt f"
| "truthy rt (PStr s) = (s \<noteq> [])"
| "truthy rt (PList xs) = (xs \<noteq> [])"
| "truthy rt (PDict d) = (d \<noteq> [])"
| "truthy rt (PObj a) = True"

fun py_int :: "('f, 'd) runtime \<Rightarrow> 'f pyval \<Rightarrow> error + int" where
  \<comment> \<open>\<open>int(v)\<close>; an object without \<open>__int__\<close>, \<open>__index__\<close> and \<open>__trunc__\<close> is refused.\<close>
  "py_int rt (PInt i) = Inr i"
| "py_int rt (PBool b) = Inr (if b then 1 else 0)"
| "py_int rt (PFloat f) = int_of_float rt f"
| "py_int rt (PStr s) = int_of_str rt s"
| "py_int rt v = Inl (TypeError ''int() argument must be a string, a bytes-like object or a real number'')"

fun py_float :: "('f, 'd) runtime \<Rightarrow> 'f pyval \<Rightarrow> error + 'f" where
  \<comment> \<open>\<open>float(v)\<close>; an object without \<open>__float__\<close> and \<open>__index__\<close> is refused.\<close>
  "py_float rt (PFloat f) = Inr f"
| "py_float rt (PInt i) = float_of_int rt i"
| "py_float rt (PBool b) = float_of_int rt (if b then 1 else 0)"
| "py_float rt (PStr s) = float_of_str rt s"
| "py_float rt v = Inl (TypeError ''float() argument must be a string or a real number'')"

fun digits :: "nat \<Rightarrow> string" where
  \<comment> \<open>The decimal digits of a natural number, most significant first.\<close>
  "digits n = (if n < 10 then [char_of (48 + n)] else digits (n div 10) @ [char_of (48 + n mod 10)])"

declare digits.simps [simp del]

fun py_str :: "('f, 'd) runtime \<Rightarrow> 'f pyval \<Rightarrow> string" where
  \<comment> \<open>\<open>str(v)\<close>.\<close>
  "py_str rt PNone = ''None''"
| "py_str rt (PBool b) = (if b then ''True'' else ''False'')"
| "py_str rt (PInt i) = (if i < 0 then CHR ''-'' # digits (nat (- i)) else digits (nat i))"
| "py_str rt (PStr s) = s"
| "py_str rt v = repr_of rt v"

definition is_space :: "char \<Rightarrow> bool" where
  \<comment> \<open>\<open>c.isspace()\<close> for a code point below 256: TAB to CR, FS to US, space, NEL, NBSP.\<close>
  "is_space c = (let n = (of_char c :: nat) in
     (9 \<le> n \<and> n \<le> 13) \<or> (28 \<le> n \<and> n \<le> 32) \<or> n = 133 \<or> n = 160)"

definition strip :: "string \<Rightarrow> string" where
  \<comment> \<open>\<open>s.strip()\<close>.\<close>
  "strip s = rev (dropWhile is_space (rev (dropWhile is_space s)))"

definition lower_char :: "char \<Rightarrow> char" where
  \<comment> \<open>\<open>c.lower()\<close> for a code point below 256: A to Z, and the capital letters of Latin-1
      (192 to 222 but the multiplication sign 215).\<close>
  "lower_char c = (let n = (of_char c :: nat) in
     if (65 \<le> n \<and> n \<le> 90) \<or> (192 \<le> n \<and> n \<le> 222 \<and> n \<noteq> 215) then char_of (n + 32) else c)"

definition lower :: "string \<Rightarrow> string" where
  \<comment> \<open>\<open>s.lower()\<close>.\<close>
  "lower s = map lower_char s"

fun join :: "string \<Rightarrow> string list \<Rightarrow> string" where
  \<comment> \<open>\<open>sep.join(xs)\<close>.\<close>
  "join sep [] = []"
| "join sep [x] = x"
| "join sep (x # y # xs) = x @ sep @ join sep (y # xs)"

section \<open>Configuration\<close>

definition as_bool :: "('f, 'd) runtime \<Rightarrow> 'f pyval \<Rightarrow> bool \<Rightarrow> bool" where
  \<comment> \<open>\<open>_as_bool(v, default)\<close>.\<close>
  "as_bool rt v dflt =
     (case v of
        PBool b \<Rightarrow> b
      | PNone \<Rightarrow> dflt
      | _ \<Rightarrow> lower (strip (py_str rt v)) \<in> set [''1'', ''true'', ''t'', ''yes'', ''y''])"

text \<open>
  \<open>resolve_polygon_cfg(cfg, ticker_override)\<close>, in the order of its statements. The
  third argument is the value of the environment variable \<open>STOCK_TICKER\<close>, \<open>None\<close>
  when it is not set.
\<close>

definition apply_overrides :: "'f dict \<Rightarrow> string option \<Rightarrow> string option \<Rightarrow> 'f dict" where
  \<comment> \<open>\<open>if ticker_override: p["stocksTicker"] = ticker_override\<close>, then
      \<open>p["stocksTicker"] = os.getenv("STOCK_TICKER", p.get("stocksTicker", ""))\<close>.\<close>
  "apply_overrides p ticker_override env =
     (let p1 = (case ticker_override of
                  None \<Rightarrow> p
                | Some t \<Rightarrow> if t \<noteq> [] then dict_set p ''stocksTicker'' (PStr t) else p)
      in dict_set p1 ''stocksTicker''
           (case env of None \<Rightarrow> get_or p1 ''stocksTicker'' (PStr []) | Some e \<Rightarrow> PStr e))"

definition apply_defaults :: "'f dict \<Rightarrow> 'f dict" where
  \<comment> \<open>The five \<open>p.setdefault\<close> calls.\<close>
  "apply_defaults p =
     setdefault (setdefault (setdefault (setdefault (setdefault p
       ''multiplier'' (PInt 1))
       ''timespan'' (PStr ''minute''))
       ''adjusted'' (PStr ''true''))
       ''sort'' (PStr ''asc''))
       ''limit'' (PInt 50000)"

definition normalize_types :: "('f, 'd) runtime \<Rightarrow> 'f dict \<Rightarrow> error + 'f dict" where
  \<comment> \<open>The four assignments under \<open># normalize types\<close>.\<close>
  "normalize_types rt p =
     (case dict_index p ''multiplier'' of Inl e \<Rightarrow> Inl e | Inr mv \<Rightarrow>
      case py_int rt mv of Inl e \<Rightarrow> Inl e | Inr m \<Rightarrow>
      let p1 = dict_set p ''multiplier'' (PInt m) in
      case dict_index p1 ''limit'' of Inl e \<Rightarrow> Inl e | Inr lv \<Rightarrow>
      case py_int rt lv of Inl e \<Rightarrow> Inl e | Inr l \<Rightarrow>
      let p2 = dict_set p1 ''limit'' (PInt l);
          p3 = dict_set p2 ''adjusted'' (PBool (as_bool rt (get_or p2 ''adjusted'' PNone) True))
      in
      case dict_index p3 ''sort'' of Inl e \<Rightarrow> Inl e | Inr sv \<Rightarrow>
      Inr (dict_set p3 ''sort'' (if (sv = PStr ''asc'') \<or> (sv = PStr ''desc'') then sv else PStr ''asc'')))"

definition polygon_required :: "string list" where
  "polygon_required =
     [''apiKey'', ''stocksTicker'', ''start_date'', ''end_date'', ''timespan'', ''multiplier'']"

definition mysql_required :: "string list" where
  "mysql_required = [''host'', ''port'', ''database'', ''username'', ''password'']"

definition missing_fields :: "('f, 'd) runtime \<Rightarrow> string list \<Rightarrow> 'f dict \<Rightarrow> string list" where
  \<comment> \<open>\<open>[k for k in required if not p.get(k)]\<close>.\<close>
  "missing_fields rt required p = filter (\<lambda>k. \<not> truthy rt (get_or p k PNone)) required"

definition section_error :: "'f pyval \<Rightarrow> string option \<Rightarrow> error" where
  \<comment> \<open>What \<open>cfg["polygon"].copy()\<close> and the statements after it raise when the section
      is not a dictionary: a list has \<open>copy\<close> but neither item assignment by a string
      nor \<open>get\<close>; \<open>None\<close>, numbers, strings and the dates \<open>yaml.safe_load\<close> builds have
      no \<open>copy\<close>.\<close>
  "section_error v ticker_override =
     (case v of
        PList xs \<Rightarrow>
          (if ticker_override \<noteq> None \<and> ticker_override \<noteq> Some []
           then TypeError ''list indices must be integers or slices, not str''
           else AttributeError ''list object has no attribute get'')
      | _ \<Rightarrow> AttributeError ''object has no attribute copy'')"

definition resolve_polygon_cfg ::
    "('f, 'd) runtime \<Rightarrow> 'f dict \<Rightarrow> string option \<Rightarrow> string option \<Rightarrow> error + 'f dict" where
  "resolve_polygon_cfg rt cfg ticker_override env =
     (case dict_get cfg ''polygon'' of
        None \<Rightarrow> Inl (ValueError ''config.yaml must contain a 'polygon' section'')
      | Some (PDict p0) \<Rightarrow>
          (case normalize_types rt (apply_defaults (apply_overrides p0 ticker_override env)) of
             Inl e \<Rightarrow> Inl e
           | Inr p \<Rightarrow>
               (let missing = missing_fields rt polygon_required p in
                if missing \<noteq> []
                then Inl (ValueError (''Missing polygon config fields: '' @ join '', '' missing))
                else Inr p))
      | Some v \<Rightarrow> Inl (section_error v ticker_override))"

definition resolve_mysql_cfg :: "('f, 'd) runtime \<Rightarrow> 'f dict \<Rightarrow> error + 'f dict" where
  \<comment> \<open>\<open>resolve_mysql_cfg(cfg)\<close>; only a dictionary has \<open>get\<close>.\<close>
  "resolve_mysql_cfg rt cfg =
     (case dict_get cfg ''mysql'' of
        None \<Rightarrow> Inl (ValueError ''config.yaml must contain a 'mysql' section'')
      | Some (PDict m) \<Rightarrow>
          (let missing = missing_fields rt mysql_required m in
           if missing \<noteq> []
           then Inl (ValueError (''Missing MySQL config fields: '' @ join '', '' missing))
           else Inr m)
      | Some v \<Rightarrow> Inl (AttributeError ''object has no attribute get''))"

section \<open>Batches\<close>

function range_step :: "nat \<Rightarrow> nat \<Rightarrow> nat \<Rightarrow> nat list" where
  \<comment> \<open>The values of \<open>range(i, n, step)\<close> for \<open>0 \<le> i\<close> and \<open>0 < step\<close>.\<close>
  "range_step i n step = (if 0 < step \<and> i < n then i # range_step (i + step) n step else [])"
  by pat_completeness auto
termination
  by (relation "measure (\<lambda>(i, n, step). n - i)") auto

declare range_step.simps [simp del]

definition chunked :: "'r list \<Rightarrow> int \<Rightarrow> error + 'r list list" where
  \<comment> \<open>\<open>chunked(iterable, size)\<close>, the batches it yields: \<open>range\<close> refuses a zero step when
      the generator is first advanced and is empty for a negative step; for
      \<open>0 \<le> i\<close> and \<open>0 < size\<close> the slice \<open>iterable[i:i + size]\<close> is
      \<open>take size (drop i iterable)\<close>.\<close>
  "chunked iterable sz =
     (if sz = 0 then Inl (ValueError ''range() arg 3 must not be zero'')
      else if sz < 0 then Inr []
      else Inr (map (\<lambda>i. take (nat sz) (drop i iterable))
                  (range_step 0 (length iterable) (nat sz))))"

text \<open>
  The loop of \<open>main\<close> over the batches. \<open>cur.executemany(INSERT_SQL, batch)\<close> followed by
  \<open>conn.commit()\<close> is one transaction on the store, a parameter that returns the new
  store or raises. The state holds the store, the batches committed so far, \<open>total\<close>
  and the totals printed after each commit. An exception leaves the loop with the
  state reached.
\<close>

record ('db, 'r) loader =
  store :: 'db
  committed :: "'r list list"
  total :: nat
  progress :: "nat list"

fun load_loop ::
    "('db \<Rightarrow> 'r list \<Rightarrow> error + 'db) \<Rightarrow> 'r list list \<Rightarrow> ('db, 'r) loader
       \<Rightarrow> ('db, 'r) loader \<times> error option" where
  "load_loop transact [] st = (st, None)"
| "load_loop transact (batch # rest) st =
     (case transact (store st) batch of
        Inl e \<Rightarrow> (st, Some e)
      | Inr db \<Rightarrow>
          load_loop transact rest
            (st\<lparr>store := db,
                committed := committed st @ [batch],
                total := total st + length batch,
                progress := progress st @ [total st + length batch]\<rparr>))"

definition load_rows ::
    "('db \<Rightarrow> 'r list \<Rightarrow> error + 'db) \<Rightarrow> 'db \<Rightarrow> 'r list \<Rightarrow> int
       \<Rightarrow> ('db, 'r) loader \<times> error option" where
  \<comment> \<open>\<open>total = 0\<close> and \<open>for batch in chunked(rows, args.batch_size): ...\<close>.\<close>
  "load_rows transact db rows batch_size =
     (let st = \<lparr>store = db, committed = [], total = 0, progress = []\<rparr> in
      case chunked rows batch_size of
        Inl e \<Rightarrow> (st, Some e)
      | Inr batches \<Rightarrow> load_loop transact batches st)"

section \<open>Records to rows\<close>

fun get_attr :: "'f pyval \<Rightarrow> string list \<Rightarrow> 'f pyval \<Rightarrow> 'f pyval" where
  \<comment> \<open>\<open>_get_attr(obj, *names, default=default)\<close>: a dictionary is asked for its keys,
      an object for its attributes; \<open>None\<close>, numbers, strings and lists have none of the
      attributes the program asks for.\<close>
  "get_attr obj [] dflt = dflt"
| "get_attr obj (n # names) dflt =
     (case obj of
        PDict d \<Rightarrow> (case map_of d n of Some v \<Rightarrow> v | None \<Rightarrow> get_attr obj names dflt)
      | PObj a \<Rightarrow> (case map_of a n of Some v \<Rightarrow> v | None \<Rightarrow> get_attr obj names dflt)
      | _ \<Rightarrow> get_attr obj names dflt)"

definition to_num :: "('f, 'd) runtime \<Rightarrow> 'f pyval \<Rightarrow> 'f option" where
  \<comment> \<open>The local function \<open>to_num\<close> of \<open>_to_row\<close>: every exception of \<open>float\<close> is caught.\<close>
  "to_num rt x =
     (case x of
        PNone \<Rightarrow> None
      | _ \<Rightarrow> (case py_float rt x of Inl e \<Rightarrow> None | Inr f \<Rightarrow> Some f))"

definition int_or_none :: "('f, 'd) runtime \<Rightarrow> 'f pyval \<Rightarrow> error + int option" where
  \<comment> \<open>\<open>int(v) if v is not None and not isinstance(v, bool) else None\<close>.\<close>
  "int_or_none rt v =
     (case v of
        PNone \<Rightarrow> Inr None
      | PBool b \<Rightarrow> Inr None
      | _ \<Rightarrow> (case py_int rt v of Inl e \<Rightarrow> Inl e | Inr i \<Rightarrow> Inr (Some i)))"

text \<open>The tuple \<open>_to_row\<close> returns, one field per column of the table \<open>aggregates\<close>.\<close>

record ('f, 'd) row =
  row_ticker :: string
  row_multiplier :: int
  row_timespan :: string
  row_ts_ms :: int
  row_dt_utc :: 'd
  row_open :: "'f option"
  row_high :: "'f option"
  row_low :: "'f option"
  row_close :: "'f option"
  row_volume :: "int option"
  row_vwap :: "'f option"
  row_transactions :: "int option"

definition to_row ::
    "('f, 'd) runtime \<Rightarrow> 'f pyval \<Rightarrow> string \<Rightarrow> int \<Rightarrow> string \<Rightarrow> error + ('f, 'd) row" where
  \<comment> \<open>\<open>_to_row(rec, ticker, multiplier, timespan)\<close>. The elements of the tuple are
      evaluated from left to right: \<open>int(v)\<close> before \<open>int(n)\<close>.\<close>
  "to_row rt rec ticker multiplier timespan =
     (case py_int rt (get_attr rec [''t'', ''timestamp''] PNone) of Inl e \<Rightarrow> Inl e | Inr t \<Rightarrow>
      let ts_ms = (if t < 10000000000 then t * 1000 else t) in
      case utc_datetime rt ts_ms of Inl e \<Rightarrow> Inl e | Inr dt \<Rightarrow>
      let o' = get_attr rec [''o'', ''open''] PNone;
          h = get_attr rec [''h'', ''high''] PNone;
          l = get_attr rec [''l'', ''low''] PNone;
          c = get_attr rec [''c'', ''close''] PNone;
          v = get_attr rec [''v'', ''volume''] PNone;
          vw = get_attr rec [''vw'', ''vwap''] PNone;
          n = get_attr rec [''n'', ''transactions''] PNone
      in
      case int_or_none rt v of Inl e \<Rightarrow> Inl e | Inr volume \<Rightarrow>
      case int_or_none rt n of Inl e \<Rightarrow> Inl e | Inr transactions \<Rightarrow>
      Inr \<lparr>row_ticker = ticker, row_multiplier = multiplier, row_timespan = timespan,
           row_ts_ms = ts_ms, row_dt_utc = dt,
           row_open = to_num rt o', row_high = to_num rt h,
           row_low = to_num rt l, row_close = to_num rt c,
           row_volume = volume, row_vwap = to_num rt vw,
           row_transactions = transactions\<rparr>)"

section \<open>Fetching with retries\<close>

text \<open>
  One walk over \<open>client.list_aggs(...)\<close> yields some records and then either ends or
  raises: a page after the first can fail when earlier pages have been yielded. The
  client is given by the outcome of each walk, numbered from 0 in the order of the
  calls. \<open>print\<close> and \<open>time.sleep\<close> change nothing the function returns and are left
  out.
\<close>

type_synonym 'f walk = "'f pyval list \<times> error option"

definition as_item :: "'f pyval \<Rightarrow> 'f pyval" where
  \<comment> \<open>\<open>a.__dict__ if hasattr(a, "__dict__") else a\<close>.\<close>
  "as_item a =
     (case a of
        PObj attrs \<Rightarrow> (case map_of attrs ''__dict__'' of Some d \<Rightarrow> d | None \<Rightarrow> a)
      | _ \<Rightarrow> a)"

function fetch_loop ::
    "(nat \<Rightarrow> 'f walk) \<Rightarrow> int \<Rightarrow> nat \<Rightarrow> 'f pyval list \<Rightarrow> error + 'f pyval list" where
  \<comment> \<open>The \<open>while True\<close> loop, entered with the values of \<open>attempt\<close> and \<open>items\<close>. Each
      pass makes one call, and \<open>attempt\<close> counts the calls that raised, so the call's
      number is \<open>attempt\<close>.\<close>
  "fetch_loop client retries attempt items =
     (case client attempt of
        (yielded, None) \<Rightarrow> Inr (items @ map as_item yielded)
      | (yielded, Some e) \<Rightarrow>
          (if int (attempt + 1) > retries then Inl e
           else fetch_loop client retries (attempt + 1) (items @ map as_item yielded)))"
  by pat_completeness auto
termination
  by (relation "measure (\<lambda>(client, retries, attempt, items). nat (retries - int attempt))") auto

declare fetch_loop.simps [simp del]

definition fetch_aggregates :: "(nat \<Rightarrow> 'f walk) \<Rightarrow> int \<Rightarrow> error + 'f pyval list" where
  \<comment> \<open>\<open>fetch_aggregates(client, ..., retries=retries)\<close>: \<open>items = []\<close>, \<open>attempt = 0\<close>.\<close>
  "fetch_aggregates client retries = fetch_loop client retries 0 []"

section \<open>A runtime for examples\<close>

text \<open>
  The examples below are evaluated under a small runtime. A float is given by an
  integer value (\<open>5\<close> stands for \<open>5.0\<close>); \<open>int\<close> and \<open>float\<close> read a string that is a
  non-empty run of the digits 0 to 9 and refuse every other string, as CPython does
  for every string without a digit; a timestamp has a calendar date from year 1 to year
  9999. The examples stay within integers below \<open>2 ^ 53\<close>, which a float holds
  exactly, and use \<open>str\<close> on no list, dictionary or object.
\<close>

definition is_digit :: "char \<Rightarrow> bool" where
  "is_digit c = (48 \<le> (of_char c :: nat) \<and> (of_char c :: nat) \<le> 57)"

definition parse_digits :: "string \<Rightarrow> error + int" where
  "parse_digits s =
     (if s \<noteq> [] \<and> list_all is_digit s
      then Inr (foldl (\<lambda>a c. 10 * a + (int (of_char c) - 48)) 0 s)
      else Inl (ValueError ''invalid literal''))"

definition example_runtime :: "(int, int) runtime" where
  "example_runtime =
     \<lparr>float_of_int = Inr,
      float_of_str = parse_digits,
      int_of_float = Inr,
      int_of_str = parse_digits,
      float_nonzero = (\<lambda>f. f \<noteq> 0),
      repr_of = (\<lambda>v. case v of
                   PFloat f \<Rightarrow> (if f < 0 then CHR ''-'' # digits (nat (- f)) else digits (nat f)) @ ''.0''
                 | _ \<Rightarrow> ''<object>''),
      utc_datetime = (\<lambda>ms. if - 62135596800000 \<le> ms \<and> ms \<le> 253402300799999 then Inr ms
                           else Inl (ValueError ''year is out of range''))\<rparr>"

section \<open>The timestamp of a row\<close>

text \<open>
  C1. When the timestamp of a record resolves to an integer \<open>t\<close>, \<open>_to_row\<close>
  normalizes it by one rule: \<open>ts_ms = t * 1000\<close> if \<open>t < 10000000000\<close> and
  \<open>ts_ms = t\<close> otherwise. Every row returned for such a record has this \<open>ts_ms\<close>; and
  a row is returned, with this \<open>ts_ms\<close>, whenever the date of the normalized timestamp,
  the volume and the transaction count convert. The witness evaluates 5, which becomes
  5000, and both sides of the threshold: 9999999999 becomes 9999999999000 and
  10000000000 stays.
\<close>

theorem to_row_timestamp_ms:
  assumes "get_attr rec [''t'', ''timestamp''] PNone = PInt t"
  shows "(\<forall>r. to_row rt rec ticker multiplier timespan = Inr r \<longrightarrow>
            row_ts_ms r = (if t < 10000000000 then t * 1000 else t))
       \<and> (\<forall>dt vol tx.
            utc_datetime rt (if t < 10000000000 then t * 1000 else t) = Inr dt
            \<and> int_or_none rt (get_attr rec [''v'', ''volume''] PNone) = Inr vol
            \<and> int_or_none rt (get_attr rec [''n'', ''transactions''] PNone) = Inr tx
            \<longrightarrow> (\<exists>r. to_row rt rec ticker multiplier timespan = Inr r
                   \<and> row_ts_ms r = (if t < 10000000000 then t * 1000 else t)
                   \<and> row_dt_utc r = dt \<and> row_volume r = vol \<and> row_transactions r = tx))"
proof (intro conjI allI impI)
  fix r
  assume "to_row rt rec ticker multiplier timespan = Inr r"
  with assms show "row_ts_ms r = (if t < 10000000000 then t * 1000 else t)"
    by (auto simp: to_row_def Let_def split: sum.splits)
next
  fix dt vol tx
  assume "utc_datetime rt (if t < 10000000000 then t * 1000 else t) = Inr dt
            \<and> int_or_none rt (get_attr rec [''v'', ''volume''] PNone) = Inr vol
            \<and> int_or_none rt (get_attr rec [''n'', ''transactions''] PNone) = Inr tx"
  with assms show "\<exists>r. to_row rt rec ticker multiplier timespan = Inr r
                   \<and> row_ts_ms r = (if t < 10000000000 then t * 1000 else t)
                   \<and> row_dt_utc r = dt \<and> row_volume r = vol \<and> row_transactions r = tx"
    by (simp add: to_row_def Let_def)
qed

theorem to_row_timestamp_ms_witness:
  "get_attr (PDict [(''t'', PInt 5)]) [''t'', ''timestamp''] PNone = (PInt 5 :: int pyval)
   \<and> utc_datetime example_runtime 5000 = Inr 5000
   \<and> (\<exists>r. to_row example_runtime (PDict [(''t'', PInt 5)]) ''XYZ'' 1 ''minute'' = Inr r
          \<and> row_ts_ms r = 5000)
   \<and> get_attr (PDict [(''t'', PInt 9999999999)]) [''t'', ''timestamp''] PNone
        = (PInt 9999999999 :: int pyval)
   \<and> utc_datetime example_runtime 9999999999000 = Inr 9999999999000
   \<and> (\<exists>r. to_row example_runtime (PDict [(''t'', PInt 9999999999)]) ''XYZ'' 1 ''minute'' = Inr r
          \<and> row_ts_ms r = 9999999999000)
   \<and> get_attr (PObj [(''timestamp'', PInt 10000000000)]) [''t'', ''timestamp''] PNone
        = (PInt 10000000000 :: int pyval)
   \<and> utc_datetime example_runtime 10000000000 = Inr 10000000000
   \<and> (\<exists>r. to_row example_runtime (PObj [(''timestamp'', PInt 10000000000)]) ''XYZ'' 1 ''minute''
             = Inr r
          \<and> row_ts_ms r = 10000000000)
   \<and> int_or_none example_runtime (PNone :: int pyval) = Inr None"
proof -
  let ?a = "PDict [(''t'', PInt 5)] :: int pyval"
  let ?b = "PDict [(''t'', PInt 9999999999)] :: int pyval"
  let ?c = "PObj [(''timestamp'', PInt 10000000000)] :: int pyval"
  have ga: "get_attr ?a [''t'', ''timestamp''] PNone = PInt 5" by simp
  have gb: "get_attr ?b [''t'', ''timestamp''] PNone = PInt 9999999999" by simp
  have gc: "get_attr ?c [''t'', ''timestamp''] PNone = PInt 10000000000" by simp
  have da: "utc_datetime example_runtime 5000 = Inr 5000"
    by (simp add: example_runtime_def)
  have db: "utc_datetime example_runtime 9999999999000 = Inr 9999999999000"
    by (simp add: example_runtime_def)
  have dc: "utc_datetime example_runtime 10000000000 = Inr 10000000000"
    by (simp add: example_runtime_def)
  have n: "int_or_none example_runtime (PNone :: int pyval) = Inr None"
    by (simp add: int_or_none_def)
  have va: "get_attr ?a [''v'', ''volume''] PNone = PNone"
       "get_attr ?a [''n'', ''transactions''] PNone = PNone" by simp_all
  have vb: "get_attr ?b [''v'', ''volume''] PNone = PNone"
       "get_attr ?b [''n'', ''transactions''] PNone = PNone" by simp_all
  have vc: "get_attr ?c [''v'', ''volume''] PNone = PNone"
       "get_attr ?c [''n'', ''transactions''] PNone = PNone" by simp_all
  have ra: "\<exists>r. to_row example_runtime ?a ''XYZ'' 1 ''minute'' = Inr r \<and> row_ts_ms r = 5000"
    using to_row_timestamp_ms [OF ga, of example_runtime "''XYZ''" 1 "''minute''"] da n va
    by fastforce
  have rb: "\<exists>r. to_row example_runtime ?b ''XYZ'' 1 ''minute'' = Inr r
              \<and> row_ts_ms r = 9999999999000"
    using to_row_timestamp_ms [OF gb, of example_runtime "''XYZ''" 1 "''minute''"] db n vb
    by fastforce
  have rc: "\<exists>r. to_row example_runtime ?c ''XYZ'' 1 ''minute'' = Inr r
              \<and> row_ts_ms r = 10000000000"
    using to_row_timestamp_ms [OF gc, of example_runtime "''XYZ''" 1 "''minute''"] dc n vc
    by fastforce
  from ga gb gc da db dc n ra rb rc show ?thesis by blast
qed

section \<open>Values that are not numbers\<close>

text \<open>\<open>to_num\<close> returns \<open>None\<close> exactly when \<open>float\<close> raises; \<open>float(None)\<close> raises.\<close>

lemma to_num_None_iff: "to_num rt x = None \<longleftrightarrow> isl (py_float rt x)"
  by (cases x) (auto simp: to_num_def split: sum.splits)




text \<open>
  C3. The vwap of a row is \<open>None\<close> when the field resolves to a value \<open>float\<close>
  refuses (\<open>to_row_unparsable_vwap\<close> below). The volume and the transaction count go
  through \<open>int\<close> outside any \<open>try\<close>: only \<open>None\<close> and booleans give \<open>None\<close>, and a
  volume that is the string \<open>n/a\<close> makes \<open>_to_row\<close> raise \<open>ValueError\<close>.
\<close>

theorem to_row_unparsable_volume:
  "to_row example_runtime
     (PDict [(''t'', PInt 1700000000000), (''o'', PInt 5), (''h'', PInt 6), (''l'', PInt 4),
             (''c'', PInt 5), (''v'', PStr ''n/a'')])
     ''XYZ'' 1 ''minute'' = Inl (ValueError ''invalid literal'')"
  by code_simp

lemma to_row_unparsable_vwap:
  assumes "to_row rt rec ticker multiplier timespan = Inr r"
    and "isl (py_float rt (get_attr rec [''vw'', ''vwap''] PNone))"
  shows "row_vwap r = None"
  using assms by (auto simp: to_row_def Let_def to_num_None_iff split: sum.splits)

section \<open>What a resolved configuration holds\<close>

text \<open>Reading a dictionary after the assignments of \<open>resolve_polygon_cfg\<close>.\<close>

lemma map_of_dict_set:
  "map_of (dict_set d k v) k' = (if k' = k then Some v else map_of d k')"
  by (induction d) auto

lemma map_of_setdefault:
  "map_of (setdefault d k v) k' =
     (if k' = k \<and> map_of d k = None then Some v else map_of d k')"
  by (auto simp: setdefault_def map_of_dict_set split: option.splits)

lemma map_of_apply_defaults:
  "map_of (apply_defaults p) k =
     (case map_of p k of
        Some v \<Rightarrow> Some v
      | None \<Rightarrow> map_of [(''multiplier'', PInt 1), (''timespan'', PStr ''minute''),
                         (''adjusted'', PStr ''true''), (''sort'', PStr ''asc''),
                         (''limit'', PInt 50000)] k)"
  by (simp add: apply_defaults_def map_of_setdefault split: option.splits)

lemma map_of_apply_overrides:
  "map_of (apply_overrides p ov env) k =
     (if k = ''stocksTicker''
      then Some (case env of
                   Some e \<Rightarrow> PStr e
                 | None \<Rightarrow> (case ov of
                              None \<Rightarrow> get_or p ''stocksTicker'' (PStr [])
                            | Some t \<Rightarrow> if t \<noteq> [] then PStr t
                                        else get_or p ''stocksTicker'' (PStr [])))
      else map_of p k)"
  by (auto simp: apply_overrides_def Let_def map_of_dict_set get_or_def
           split: option.splits)

lemma normalize_types_Inr:
  assumes "normalize_types rt p = Inr q"
  shows "\<exists>mv m lv l sv.
           map_of p ''multiplier'' = Some mv \<and> py_int rt mv = Inr m
         \<and> map_of p ''limit'' = Some lv \<and> py_int rt lv = Inr l
         \<and> map_of p ''sort'' = Some sv
         \<and> q = dict_set (dict_set (dict_set (dict_set p ''multiplier'' (PInt m)) ''limit'' (PInt l))
                 ''adjusted'' (PBool (as_bool rt (get_or (dict_set (dict_set p ''multiplier'' (PInt m)) ''limit'' (PInt l)) ''adjusted'' PNone) True)))
                 ''sort'' (if sv = PStr ''asc'' \<or> sv = PStr ''desc'' then sv else PStr ''asc'')"
proof -
  from assms obtain mv where mv: "map_of p ''multiplier'' = Some mv"
    by (cases "map_of p ''multiplier''") (simp_all add: normalize_types_def dict_index_def)
  from assms mv obtain m where m: "py_int rt mv = Inr m"
    by (cases "py_int rt mv") (simp_all add: normalize_types_def dict_index_def)
  let ?p1 = "dict_set p ''multiplier'' (PInt m)"
  from assms mv m obtain lv where lv: "map_of ?p1 ''limit'' = Some lv"
    by (cases "map_of ?p1 ''limit''") (simp_all add: normalize_types_def dict_index_def Let_def)
  from assms mv m lv obtain l where l: "py_int rt lv = Inr l"
    by (cases "py_int rt lv") (simp_all add: normalize_types_def dict_index_def Let_def)
  let ?p2 = "dict_set ?p1 ''limit'' (PInt l)"
  let ?p3 = "dict_set ?p2 ''adjusted'' (PBool (as_bool rt (get_or ?p2 ''adjusted'' PNone) True))"
  from assms mv m lv l obtain sv where sv: "map_of ?p3 ''sort'' = Some sv"
    by (cases "map_of ?p3 ''sort''") (simp_all add: normalize_types_def dict_index_def Let_def)
  from assms mv m lv l sv
  have q: "q = dict_set ?p3 ''sort'' (if sv = PStr ''asc'' \<or> sv = PStr ''desc'' then sv else PStr ''asc'')"
    by (simp add: normalize_types_def dict_index_def Let_def)
  from lv have lv': "map_of p ''limit'' = Some lv" by (simp add: map_of_dict_set)
  from sv have sv': "map_of p ''sort'' = Some sv" by (simp add: map_of_dict_set)
  from mv m lv' l sv' q show ?thesis by blast
qed

lemma normalize_types_other:
  assumes "normalize_types rt p = Inr q"
    and "k \<noteq> ''multiplier''" "k \<noteq> ''limit''" "k \<noteq> ''adjusted''" "k \<noteq> ''sort''"
  shows "map_of q k = map_of p k"
proof -
  from normalize_types_Inr [OF assms(1)] obtain v1 v2 v3 v4 where
    "q = dict_set (dict_set (dict_set (dict_set p ''multiplier'' v1) ''limit'' v2) ''adjusted'' v3) ''sort'' v4"
    by blast
  with assms(2-) show ?thesis by (simp add: map_of_dict_set)
qed

lemma normalize_types_ints:
  assumes "normalize_types rt p = Inr q"
  shows "\<exists>mv m lv l. map_of p ''multiplier'' = Some mv \<and> py_int rt mv = Inr m
          \<and> map_of p ''limit'' = Some lv \<and> py_int rt lv = Inr l
          \<and> map_of q ''multiplier'' = Some (PInt m) \<and> map_of q ''limit'' = Some (PInt l)"
proof -
  from normalize_types_Inr [OF assms] obtain mv m lv l v3 v4 where
    a: "map_of p ''multiplier'' = Some mv" "py_int rt mv = Inr m"
       "map_of p ''limit'' = Some lv" "py_int rt lv = Inr l" and
    q: "q = dict_set (dict_set (dict_set (dict_set p ''multiplier'' (PInt m)) ''limit'' (PInt l)) ''adjusted'' v3) ''sort'' v4"
    by blast
  from q have "map_of q ''multiplier'' = Some (PInt m)" "map_of q ''limit'' = Some (PInt l)"
    by (simp_all add: map_of_dict_set)
  with a show ?thesis by blast
qed

lemma normalize_types_defined:
  assumes "map_of p ''multiplier'' = Some mv" "py_int rt mv = Inr m"
    and "map_of p ''limit'' = Some lv" "py_int rt lv = Inr l"
    and "map_of p ''sort'' = Some sv"
  shows "\<exists>q. normalize_types rt p = Inr q"
  using assms
  by (simp add: normalize_types_def dict_index_def Let_def map_of_dict_set)

lemma resolve_polygon_cfg_Inr:
  assumes "resolve_polygon_cfg rt cfg ov env = Inr p"
  shows "\<exists>p0. dict_get cfg ''polygon'' = Some (PDict p0)
          \<and> normalize_types rt (apply_defaults (apply_overrides p0 ov env)) = Inr p
          \<and> missing_fields rt polygon_required p = []"
proof (cases "dict_get cfg ''polygon''")
  case None
  with assms show ?thesis by (simp add: resolve_polygon_cfg_def)
next
  case (Some v)
  show ?thesis
  proof (cases v)
    case (PDict p0)
    show ?thesis
    proof (cases "normalize_types rt (apply_defaults (apply_overrides p0 ov env))")
      case (Inl e)
      with assms Some PDict show ?thesis by (simp add: resolve_polygon_cfg_def)
    next
      case (Inr q)
      with assms Some PDict show ?thesis
        by (simp add: resolve_polygon_cfg_def Let_def split: if_splits)
    qed
  qed (use assms Some in \<open>simp_all add: resolve_polygon_cfg_def\<close>)
qed

lemma missing_fields_Nil:
  "missing_fields rt required p = [] \<longleftrightarrow> (\<forall>k \<in> set required. truthy rt (get_or p k PNone))"
  by (auto simp: missing_fields_def filter_empty_conv)

text \<open>
  C4, as stated: the timespan of an accepted configuration is one of second, minute,
  hour, day, week, month, in lower case. \<open>resolve_polygon_cfg\<close> never compares the
  timespan with a list of names and never changes its case: the configuration below,
  with the timespan \<open>Fortnight\<close>, is accepted, and the timespan is returned as it was.
\<close>

theorem resolve_polygon_cfg_timespan_counterexample:
  "resolve_polygon_cfg example_runtime
     [(''polygon'', PDict [(''apiKey'', PStr ''key''), (''stocksTicker'', PStr ''AAPL''),
        (''start_date'', PStr ''2024-01-01''), (''end_date'', PStr ''2024-01-31''),
        (''timespan'', PStr ''Fortnight'')])]
     None None =
   Inr [(''apiKey'', PStr ''key''), (''stocksTicker'', PStr ''AAPL''),
        (''start_date'', PStr ''2024-01-01''), (''end_date'', PStr ''2024-01-31''),
        (''timespan'', PStr ''Fortnight''), (''multiplier'', PInt 1),
        (''adjusted'', PBool True), (''sort'', PStr ''asc''), (''limit'', PInt 50000)]"
  by code_simp

text \<open>
  C4, amended. The timespan of an accepted configuration is the value the polygon
  section gives, unchanged, or \<open>minute\<close> when the section has no such key, and the
  value is true (not empty).
\<close>

theorem resolve_polygon_cfg_timespan:
  assumes "resolve_polygon_cfg rt cfg ov env = Inr p"
  shows "\<exists>p0. dict_get cfg ''polygon'' = Some (PDict p0)
          \<and> dict_get p ''timespan'' = Some (get_or p0 ''timespan'' (PStr ''minute''))
          \<and> truthy rt (get_or p0 ''timespan'' (PStr ''minute''))"
proof -
  from resolve_polygon_cfg_Inr [OF assms] obtain p0 where
    sec: "dict_get cfg ''polygon'' = Some (PDict p0)" and
    norm: "normalize_types rt (apply_defaults (apply_overrides p0 ov env)) = Inr p" and
    miss: "missing_fields rt polygon_required p = []"
    by blast
  have "map_of p ''timespan'' = map_of (apply_defaults (apply_overrides p0 ov env)) ''timespan''"
    by (rule normalize_types_other [OF norm]) simp_all
  then have ts: "map_of p ''timespan'' = Some (get_or p0 ''timespan'' (PStr ''minute''))"
    by (simp add: map_of_apply_defaults map_of_apply_overrides get_or_def split: option.splits)
  from miss have "truthy rt (get_or p ''timespan'' PNone)"
    by (simp add: missing_fields_Nil polygon_required_def)
  with ts have "truthy rt (get_or p0 ''timespan'' (PStr ''minute''))"
    by (simp add: get_or_def)
  with sec ts show ?thesis by (simp add: dict_get_def)
qed

theorem resolve_polygon_cfg_timespan_witness:
  "resolve_polygon_cfg example_runtime
     [(''polygon'', PDict [(''apiKey'', PStr ''key''), (''stocksTicker'', PStr ''AAPL''),
        (''start_date'', PStr ''2024-01-01''), (''end_date'', PStr ''2024-01-31''),
        (''timespan'', PStr ''day'')])]
     None None =
   Inr [(''apiKey'', PStr ''key''), (''stocksTicker'', PStr ''AAPL''),
        (''start_date'', PStr ''2024-01-01''), (''end_date'', PStr ''2024-01-31''),
        (''timespan'', PStr ''day''), (''multiplier'', PInt 1),
        (''adjusted'', PBool True), (''sort'', PStr ''asc''), (''limit'', PInt 50000)]
   \<and> dict_get [(''apiKey'', PStr ''key''), (''stocksTicker'', PStr ''AAPL''),
        (''start_date'', PStr ''2024-01-01''), (''end_date'', PStr ''2024-01-31''),
        (''timespan'', PStr ''day''), (''multiplier'', PInt 1),
        (''adjusted'', PBool True), (''sort'', PStr ''asc''), (''limit'', PInt 50000 :: int pyval)]
        ''timespan'' = Some (PStr ''day'')
   \<and> truthy example_runtime (PStr ''day'')"
proof -
  let ?cfg = "[(''polygon'', PDict [(''apiKey'', PStr ''key''), (''stocksTicker'', PStr ''AAPL''),
        (''start_date'', PStr ''2024-01-01''), (''end_date'', PStr ''2024-01-31''),
        (''timespan'', PStr ''day'')])] :: int dict"
  let ?p = "[(''apiKey'', PStr ''key''), (''stocksTicker'', PStr ''AAPL''),
        (''start_date'', PStr ''2024-01-01''), (''end_date'', PStr ''2024-01-31''),
        (''timespan'', PStr ''day''), (''multiplier'', PInt 1),
        (''adjusted'', PBool True), (''sort'', PStr ''asc''), (''limit'', PInt 50000)] :: int dict"
  have r: "resolve_polygon_cfg example_runtime ?cfg None None = Inr ?p"
    by code_simp
  from resolve_polygon_cfg_timespan [OF r] obtain p0 where
    "dict_get ?cfg ''polygon'' = Some (PDict p0)"
    "dict_get ?p ''timespan'' = Some (get_or p0 ''timespan'' (PStr ''minute''))"
    "truthy example_runtime (get_or p0 ''timespan'' (PStr ''minute''))"
    by blast
  then have "dict_get ?p ''timespan'' = Some (PStr ''day'') \<and> truthy example_runtime (PStr ''day'')"
    by (auto simp: dict_get_def get_or_def)
  with r show ?thesis by simp
qed

text \<open>
  C8, as stated: the multiplier and the limit of an accepted configuration are
  positive. The only check is that the multiplier is true, that is, not zero, and the
  limit is not checked: the configuration below, with the multiplier \<open>-1\<close> and the
  limit \<open>0\<close>, is accepted.
\<close>

theorem resolve_polygon_cfg_multiplier_limit_counterexample:
  "resolve_polygon_cfg example_runtime
     [(''polygon'', PDict [(''apiKey'', PStr ''key''), (''stocksTicker'', PStr ''AAPL''),
        (''start_date'', PStr ''2024-01-01''), (''end_date'', PStr ''2024-01-31''),
        (''multiplier'', PInt (- 1)), (''limit'', PInt 0)])]
     None None =
   Inr [(''apiKey'', PStr ''key''), (''stocksTicker'', PStr ''AAPL''),
        (''start_date'', PStr ''2024-01-01''), (''end_date'', PStr ''2024-01-31''),
        (''multiplier'', PInt (- 1)), (''limit'', PInt 0), (''timespan'', PStr ''minute''),
        (''adjusted'', PBool True), (''sort'', PStr ''asc'')]"
  by code_simp

text \<open>
  C8, amended. The multiplier and the limit of an accepted configuration are integers,
  and the multiplier is not zero.
\<close>

theorem resolve_polygon_cfg_multiplier_limit:
  assumes "resolve_polygon_cfg rt cfg ov env = Inr p"
  shows "\<exists>m l. dict_get p ''multiplier'' = Some (PInt m) \<and> m \<noteq> 0
             \<and> dict_get p ''limit'' = Some (PInt l)"
proof -
  from resolve_polygon_cfg_Inr [OF assms] obtain p0 where
    norm: "normalize_types rt (apply_defaults (apply_overrides p0 ov env)) = Inr p" and
    miss: "missing_fields rt polygon_required p = []"
    by blast
  from normalize_types_ints [OF norm] obtain m l where
    m: "map_of p ''multiplier'' = Some (PInt m)" and l: "map_of p ''limit'' = Some (PInt l)"
    by blast
  from miss have "truthy rt (get_or p ''multiplier'' PNone)"
    by (simp add: missing_fields_Nil polygon_required_def)
  with m have "m \<noteq> 0" by (simp add: get_or_def)
  with m l show ?thesis by (simp add: dict_get_def)
qed

theorem resolve_polygon_cfg_multiplier_limit_witness:
  "resolve_polygon_cfg example_runtime
     [(''polygon'', PDict [(''apiKey'', PStr ''key''), (''stocksTicker'', PStr ''AAPL''),
        (''start_date'', PStr ''2024-01-01''), (''end_date'', PStr ''2024-01-31''),
        (''multiplier'', PStr ''5''), (''limit'', PInt 100)])]
     None None =
   Inr [(''apiKey'', PStr ''key''), (''stocksTicker'', PStr ''AAPL''),
        (''start_date'', PStr ''2024-01-01''), (''end_date'', PStr ''2024-01-31''),
        (''multiplier'', PInt 5), (''limit'', PInt 100), (''timespan'', PStr ''minute''),
        (''adjusted'', PBool True), (''sort'', PStr ''asc'')]
   \<and> (\<exists>m l. dict_get [(''apiKey'', PStr ''key''), (''stocksTicker'', PStr ''AAPL''),
        (''start_date'', PStr ''2024-01-01''), (''end_date'', PStr ''2024-01-31''),
        (''multiplier'', PInt 5), (''limit'', PInt 100), (''timespan'', PStr ''minute''),
        (''adjusted'', PBool True), (''sort'', PStr ''asc'' :: int pyval)] ''multiplier'' = Some (PInt m)
        \<and> m \<noteq> 0
        \<and> dict_get [(''apiKey'', PStr ''key''), (''stocksTicker'', PStr ''AAPL''),
        (''start_date'', PStr ''2024-01-01''), (''end_date'', PStr ''2024-01-31''),
        (''multiplier'', PInt 5), (''limit'', PInt 100), (''timespan'', PStr ''minute''),
        (''adjusted'', PBool True), (''sort'', PStr ''asc'' :: int pyval)] ''limit'' = Some (PInt l))"
proof -
  let ?cfg = "[(''polygon'', PDict [(''apiKey'', PStr ''key''), (''stocksTicker'', PStr ''AAPL''),
        (''start_date'', PStr ''2024-01-01''), (''end_date'', PStr ''2024-01-31''),
        (''multiplier'', PStr ''5''), (''limit'', PInt 100)])] :: int dict"
  have r: "resolve_polygon_cfg example_runtime ?cfg None None =
   Inr [(''apiKey'', PStr ''key''), (''stocksTicker'', PStr ''AAPL''),
        (''start_date'', PStr ''2024-01-01''), (''end_date'', PStr ''2024-01-31''),
        (''multiplier'', PInt 5), (''limit'', PInt 100), (''timespan'', PStr ''minute''),
        (''adjusted'', PBool True), (''sort'', PStr ''asc'')]"
    by code_simp
  from resolve_polygon_cfg_multiplier_limit [OF r] r show ?thesis by blast
qed

text \<open>A negative limit is accepted as well.\<close>

lemma resolve_polygon_cfg_negative_limit:
  "resolve_polygon_cfg example_runtime
     [(''polygon'', PDict [(''apiKey'', PStr ''key''), (''stocksTicker'', PStr ''AAPL''),
        (''start_date'', PStr ''2024-01-01''), (''end_date'', PStr ''2024-01-31''),
        (''limit'', PInt (- 5))])]
     None None =
   Inr [(''apiKey'', PStr ''key''), (''stocksTicker'', PStr ''AAPL''),
        (''start_date'', PStr ''2024-01-01''), (''end_date'', PStr ''2024-01-31''),
        (''limit'', PInt (- 5)), (''multiplier'', PInt 1), (''timespan'', PStr ''minute''),
        (''adjusted'', PBool True), (''sort'', PStr ''asc'')]"
  by code_simp

text \<open>
  When a configuration is accepted: the section is a dictionary, \<open>int\<close> accepts the
  multiplier and the limit, and every required field is true after the overrides and
  the defaults.
\<close>

lemma resolve_polygon_cfg_accepts:
  assumes sec: "dict_get cfg ''polygon'' = Some (PDict p0)"
    and m: "py_int rt (get_or p0 ''multiplier'' (PInt 1)) = Inr m" and nz: "m \<noteq> 0"
    and l: "py_int rt (get_or p0 ''limit'' (PInt 50000)) = Inr l"
    and k1: "truthy rt (get_or p0 ''apiKey'' PNone)"
    and k2: "truthy rt (get_or p0 ''start_date'' PNone)"
    and k3: "truthy rt (get_or p0 ''end_date'' PNone)"
    and k4: "truthy rt (get_or p0 ''timespan'' (PStr ''minute''))"
    and tk: "truthy rt (case env of
                          Some e \<Rightarrow> PStr e
                        | None \<Rightarrow> (case ov of
                                     None \<Rightarrow> get_or p0 ''stocksTicker'' (PStr [])
                                   | Some t \<Rightarrow> if t \<noteq> [] then PStr t
                                               else get_or p0 ''stocksTicker'' (PStr [])))"
  shows "\<exists>p. resolve_polygon_cfg rt cfg ov env = Inr p
           \<and> dict_get p ''stocksTicker'' =
               Some (case env of
                       Some e \<Rightarrow> PStr e
                     | None \<Rightarrow> (case ov of
                                  None \<Rightarrow> get_or p0 ''stocksTicker'' (PStr [])
                                | Some t \<Rightarrow> if t \<noteq> [] then PStr t
                                            else get_or p0 ''stocksTicker'' (PStr [])))"
proof -
  let ?d = "apply_defaults (apply_overrides p0 ov env)"
  let ?tk = "case env of
               Some e \<Rightarrow> PStr e
             | None \<Rightarrow> (case ov of
                          None \<Rightarrow> get_or p0 ''stocksTicker'' (PStr [])
                        | Some t \<Rightarrow> if t \<noteq> [] then PStr t
                                    else get_or p0 ''stocksTicker'' (PStr []))"
  have mv: "map_of ?d ''multiplier'' = Some (get_or p0 ''multiplier'' (PInt 1))"
    by (simp add: map_of_apply_defaults map_of_apply_overrides get_or_def split: option.splits)
  have lv: "map_of ?d ''limit'' = Some (get_or p0 ''limit'' (PInt 50000))"
    by (simp add: map_of_apply_defaults map_of_apply_overrides get_or_def split: option.splits)
  have sv: "map_of ?d ''sort'' = Some (get_or p0 ''sort'' (PStr ''asc''))"
    by (simp add: map_of_apply_defaults map_of_apply_overrides get_or_def split: option.splits)
  from normalize_types_defined [OF mv m lv l sv] obtain q where
    q: "normalize_types rt ?d = Inr q" by blast
  have o1: "map_of q ''apiKey'' = map_of ?d ''apiKey''"
    by (rule normalize_types_other [OF q]) simp_all
  have o2: "map_of q ''start_date'' = map_of ?d ''start_date''"
    by (rule normalize_types_other [OF q]) simp_all
  have o3: "map_of q ''end_date'' = map_of ?d ''end_date''"
    by (rule normalize_types_other [OF q]) simp_all
  have o4: "map_of q ''timespan'' = map_of ?d ''timespan''"
    by (rule normalize_types_other [OF q]) simp_all
  have o5: "map_of q ''stocksTicker'' = map_of ?d ''stocksTicker''"
    by (rule normalize_types_other [OF q]) simp_all
  from normalize_types_ints [OF q] mv m
  have o6: "map_of q ''multiplier'' = Some (PInt m)" by auto
  have g1: "get_or q ''apiKey'' PNone = get_or p0 ''apiKey'' PNone"
    using o1 by (simp add: get_or_def map_of_apply_defaults map_of_apply_overrides split: option.splits)
  have g2: "get_or q ''start_date'' PNone = get_or p0 ''start_date'' PNone"
    using o2 by (simp add: get_or_def map_of_apply_defaults map_of_apply_overrides split: option.splits)
  have g3: "get_or q ''end_date'' PNone = get_or p0 ''end_date'' PNone"
    using o3 by (simp add: get_or_def map_of_apply_defaults map_of_apply_overrides split: option.splits)
  have g4: "get_or q ''timespan'' PNone = get_or p0 ''timespan'' (PStr ''minute'')"
    using o4 by (simp add: get_or_def map_of_apply_defaults map_of_apply_overrides split: option.splits)
  have g5: "map_of q ''stocksTicker'' = Some ?tk"
    using o5 by (simp add: map_of_apply_defaults map_of_apply_overrides)
  then have g5': "get_or q ''stocksTicker'' PNone = ?tk" by (simp add: get_or_def)
  have g6: "get_or q ''multiplier'' PNone = PInt m"
    using o6 by (simp add: get_or_def)
  have "missing_fields rt polygon_required q = []"
    unfolding missing_fields_Nil polygon_required_def
    using k1 k2 k3 k4 tk nz by (simp add: g1 g2 g3 g4 g5' g6)
  with sec q have "resolve_polygon_cfg rt cfg ov env = Inr q"
    by (simp add: resolve_polygon_cfg_def Let_def)
  with g5 show ?thesis by (simp add: dict_get_def)
qed

lemma resolve_polygon_cfg_ticker_accepted:
  assumes "resolve_polygon_cfg rt cfg ov env = Inr p"
  shows "\<exists>p0. dict_get cfg ''polygon'' = Some (PDict p0)
     \<and> (\<forall>e. env = Some e \<longrightarrow> dict_get p ''stocksTicker'' = Some (PStr e) \<and> e \<noteq> [])
     \<and> (\<forall>t. env = None \<and> ov = Some t \<and> t \<noteq> [] \<longrightarrow> dict_get p ''stocksTicker'' = Some (PStr t))
     \<and> (env = None \<and> (ov = None \<or> ov = Some []) \<longrightarrow>
          dict_get p ''stocksTicker'' = dict_get p0 ''stocksTicker'')"
proof -
  from resolve_polygon_cfg_Inr [OF assms] obtain p0 where
    sec: "dict_get cfg ''polygon'' = Some (PDict p0)" and
    norm: "normalize_types rt (apply_defaults (apply_overrides p0 ov env)) = Inr p" and
    miss: "missing_fields rt polygon_required p = []"
    by blast
  have "map_of p ''stocksTicker'' = map_of (apply_defaults (apply_overrides p0 ov env)) ''stocksTicker''"
    by (rule normalize_types_other [OF norm]) simp_all
  then have tk: "map_of p ''stocksTicker'' =
      Some (case env of
              Some e \<Rightarrow> PStr e
            | None \<Rightarrow> (case ov of
                         None \<Rightarrow> get_or p0 ''stocksTicker'' (PStr [])
                       | Some t \<Rightarrow> if t \<noteq> [] then PStr t
                                   else get_or p0 ''stocksTicker'' (PStr [])))"
    by (simp add: map_of_apply_defaults map_of_apply_overrides)
  from miss have tr: "truthy rt (get_or p ''stocksTicker'' PNone)"
    by (simp add: missing_fields_Nil polygon_required_def)
  have a: "\<forall>e. env = Some e \<longrightarrow> dict_get p ''stocksTicker'' = Some (PStr e) \<and> e \<noteq> []"
    using tk tr by (auto simp: dict_get_def get_or_def)
  have b: "\<forall>t. env = None \<and> ov = Some t \<and> t \<noteq> [] \<longrightarrow> dict_get p ''stocksTicker'' = Some (PStr t)"
    using tk by (auto simp: dict_get_def)
  have c: "env = None \<and> (ov = None \<or> ov = Some []) \<longrightarrow>
          dict_get p ''stocksTicker'' = dict_get p0 ''stocksTicker''"
    using tk tr by (auto simp: dict_get_def get_or_def split: option.splits)
  from sec a b c show ?thesis by blast
qed

text \<open>
  C10. The ticker of the resolved configuration is the value of \<open>STOCK_TICKER\<close> when
  the variable is set, whether or not \<open>--ticker\<close> is given; it is the \<open>--ticker\<close>
  override when the variable is not set and the override is given and not empty; it is
  the ticker of the polygon section otherwise. This holds of every configuration that
  is accepted, and a configuration is accepted, with that ticker, whenever the section
  is a dictionary, \<open>int\<close> accepts the multiplier and the limit, the multiplier is not
  zero, the API key, the dates and the timespan are true, and the ticker so chosen is
  not empty.
\<close>

theorem resolve_polygon_cfg_ticker:
  "(\<forall>p. resolve_polygon_cfg rt cfg ov env = Inr p \<longrightarrow>
      (\<forall>e. env = Some e \<longrightarrow> dict_get p ''stocksTicker'' = Some (PStr e) \<and> e \<noteq> [])
      \<and> (\<forall>t. env = None \<and> ov = Some t \<and> t \<noteq> [] \<longrightarrow>
             dict_get p ''stocksTicker'' = Some (PStr t))
      \<and> (\<forall>p0. env = None \<and> (ov = None \<or> ov = Some [])
                \<and> dict_get cfg ''polygon'' = Some (PDict p0) \<longrightarrow>
             dict_get p ''stocksTicker'' = dict_get p0 ''stocksTicker''))
   \<and> (\<forall>p0 m l.
        dict_get cfg ''polygon'' = Some (PDict p0)
        \<and> py_int rt (get_or p0 ''multiplier'' (PInt 1)) = Inr m \<and> m \<noteq> 0
        \<and> py_int rt (get_or p0 ''limit'' (PInt 50000)) = Inr l
        \<and> truthy rt (get_or p0 ''apiKey'' PNone)
        \<and> truthy rt (get_or p0 ''start_date'' PNone)
        \<and> truthy rt (get_or p0 ''end_date'' PNone)
        \<and> truthy rt (get_or p0 ''timespan'' (PStr ''minute''))
      \<longrightarrow>
        (\<forall>e. env = Some e \<and> e \<noteq> [] \<longrightarrow>
           (\<exists>p. resolve_polygon_cfg rt cfg ov env = Inr p
                \<and> dict_get p ''stocksTicker'' = Some (PStr e)))
        \<and> (\<forall>t. env = None \<and> ov = Some t \<and> t \<noteq> [] \<longrightarrow>
           (\<exists>p. resolve_polygon_cfg rt cfg ov env = Inr p
                \<and> dict_get p ''stocksTicker'' = Some (PStr t)))
        \<and> (env = None \<and> (ov = None \<or> ov = Some [])
              \<and> truthy rt (get_or p0 ''stocksTicker'' PNone) \<longrightarrow>
           (\<exists>p. resolve_polygon_cfg rt cfg ov env = Inr p
                \<and> dict_get p ''stocksTicker'' = dict_get p0 ''stocksTicker'')))"
proof (intro conjI allI impI)
  fix p e
  assume "resolve_polygon_cfg rt cfg ov env = Inr p" and "env = Some e"
  with resolve_polygon_cfg_ticker_accepted [of rt cfg ov env p]
  show "dict_get p ''stocksTicker'' = Some (PStr e)" and "e \<noteq> []" by blast+
next
  fix p t
  assume "resolve_polygon_cfg rt cfg ov env = Inr p" and "env = None \<and> ov = Some t \<and> t \<noteq> []"
  with resolve_polygon_cfg_ticker_accepted [of rt cfg ov env p]
  show "dict_get p ''stocksTicker'' = Some (PStr t)" by blast
next
  fix p p0
  assume "resolve_polygon_cfg rt cfg ov env = Inr p"
    and "env = None \<and> (ov = None \<or> ov = Some []) \<and> dict_get cfg ''polygon'' = Some (PDict p0)"
  with resolve_polygon_cfg_ticker_accepted [of rt cfg ov env p]
  show "dict_get p ''stocksTicker'' = dict_get p0 ''stocksTicker''" by auto
next
  fix p0 m l e
  assume h: "dict_get cfg ''polygon'' = Some (PDict p0)
        \<and> py_int rt (get_or p0 ''multiplier'' (PInt 1)) = Inr m \<and> m \<noteq> 0
        \<and> py_int rt (get_or p0 ''limit'' (PInt 50000)) = Inr l
        \<and> truthy rt (get_or p0 ''apiKey'' PNone)
        \<and> truthy rt (get_or p0 ''start_date'' PNone)
        \<and> truthy rt (get_or p0 ''end_date'' PNone)
        \<and> truthy rt (get_or p0 ''timespan'' (PStr ''minute''))"
    and e: "env = Some e \<and> e \<noteq> []"
  from e have "truthy rt (case env of
                          Some e \<Rightarrow> PStr e
                        | None \<Rightarrow> (case ov of
                                     None \<Rightarrow> get_or p0 ''stocksTicker'' (PStr [])
                                   | Some t \<Rightarrow> if t \<noteq> [] then PStr t
                                               else get_or p0 ''stocksTicker'' (PStr [])))"
    by simp
  with h have "\<exists>p. resolve_polygon_cfg rt cfg ov env = Inr p
           \<and> dict_get p ''stocksTicker'' =
               Some (case env of
                       Some e \<Rightarrow> PStr e
                     | None \<Rightarrow> (case ov of
                                  None \<Rightarrow> get_or p0 ''stocksTicker'' (PStr [])
                                | Some t \<Rightarrow> if t \<noteq> [] then PStr t
                                            else get_or p0 ''stocksTicker'' (PStr [])))"
    by (intro resolve_polygon_cfg_accepts [where m = m and l = l]) simp_all
  with e show "\<exists>p. resolve_polygon_cfg rt cfg ov env = Inr p
                \<and> dict_get p ''stocksTicker'' = Some (PStr e)"
    by simp
next
  fix p0 m l t
  assume h: "dict_get cfg ''polygon'' = Some (PDict p0)
        \<and> py_int rt (get_or p0 ''multiplier'' (PInt 1)) = Inr m \<and> m \<noteq> 0
        \<and> py_int rt (get_or p0 ''limit'' (PInt 50000)) = Inr l
        \<and> truthy rt (get_or p0 ''apiKey'' PNone)
        \<and> truthy rt (get_or p0 ''start_date'' PNone)
        \<and> truthy rt (get_or p0 ''end_date'' PNone)
        \<and> truthy rt (get_or p0 ''timespan'' (PStr ''minute''))"
    and t: "env = None \<and> ov = Some t \<and> t \<noteq> []"
  from t have "truthy rt (case env of
                          Some e \<Rightarrow> PStr e
                        | None \<Rightarrow> (case ov of
                                     None \<Rightarrow> get_or p0 ''stocksTicker'' (PStr [])
                                   | Some t \<Rightarrow> if t \<noteq> [] then PStr t
                                               else get_or p0 ''stocksTicker'' (PStr [])))"
    by simp
  with h have "\<exists>p. resolve_polygon_cfg rt cfg ov env = Inr p
           \<and> dict_get p ''stocksTicker'' =
               Some (case env of
                       Some e \<Rightarrow> PStr e
                     | None \<Rightarrow> (case ov of
                                  None \<Rightarrow> get_or p0 ''stocksTicker'' (PStr [])
                                | Some t \<Rightarrow> if t \<noteq> [] then PStr t
                                            else get_or p0 ''stocksTicker'' (PStr [])))"
    by (intro resolve_polygon_cfg_accepts [where m = m and l = l]) simp_all
  with t show "\<exists>p. resolve_polygon_cfg rt cfg ov env = Inr p
                \<and> dict_get p ''stocksTicker'' = Some (PStr t)"
    by simp
next
  fix p0 m l
  assume h: "dict_get cfg ''polygon'' = Some (PDict p0)
        \<and> py_int rt (get_or p0 ''multiplier'' (PInt 1)) = Inr m \<and> m \<noteq> 0
        \<and> py_int rt (get_or p0 ''limit'' (PInt 50000)) = Inr l
        \<and> truthy rt (get_or p0 ''apiKey'' PNone)
        \<and> truthy rt (get_or p0 ''start_date'' PNone)
        \<and> truthy rt (get_or p0 ''end_date'' PNone)
        \<and> truthy rt (get_or p0 ''timespan'' (PStr ''minute''))"
    and c: "env = None \<and> (ov = None \<or> ov = Some [])
              \<and> truthy rt (get_or p0 ''stocksTicker'' PNone)"
  from c obtain v where v: "map_of p0 ''stocksTicker'' = Some v" "truthy rt v"
    by (cases "map_of p0 ''stocksTicker''") (simp_all add: get_or_def)
  then have gv: "get_or p0 ''stocksTicker'' (PStr []) = v" by (simp add: get_or_def)
  from c v gv have "truthy rt (case env of
                          Some e \<Rightarrow> PStr e
                        | None \<Rightarrow> (case ov of
                                     None \<Rightarrow> get_or p0 ''stocksTicker'' (PStr [])
                                   | Some t \<Rightarrow> if t \<noteq> [] then PStr t
                                               else get_or p0 ''stocksTicker'' (PStr [])))"
    by auto
  with h have "\<exists>p. resolve_polygon_cfg rt cfg ov env = Inr p
           \<and> dict_get p ''stocksTicker'' =
               Some (case env of
                       Some e \<Rightarrow> PStr e
                     | None \<Rightarrow> (case ov of
                                  None \<Rightarrow> get_or p0 ''stocksTicker'' (PStr [])
                                | Some t \<Rightarrow> if t \<noteq> [] then PStr t
                                            else get_or p0 ''stocksTicker'' (PStr [])))"
    by (intro resolve_polygon_cfg_accepts [where m = m and l = l]) simp_all
  with c v gv show "\<exists>p. resolve_polygon_cfg rt cfg ov env = Inr p
                \<and> dict_get p ''stocksTicker'' = dict_get p0 ''stocksTicker''"
    by (auto simp: dict_get_def)
qed

theorem resolve_polygon_cfg_ticker_witness:
  "dict_get
     [(''polygon'', PDict [(''apiKey'', PStr ''key''), (''stocksTicker'', PStr ''AAPL''),
        (''start_date'', PStr ''2024-01-01''), (''end_date'', PStr ''2024-01-31'')])]
     ''polygon'' =
     Some (PDict [(''apiKey'', PStr ''key''), (''stocksTicker'', PStr ''AAPL''),
        (''start_date'', PStr ''2024-01-01''), (''end_date'', PStr ''2024-01-31'' :: int pyval)])
   \<and> py_int example_runtime (get_or
        [(''apiKey'', PStr ''key''), (''stocksTicker'', PStr ''AAPL''),
         (''start_date'', PStr ''2024-01-01''), (''end_date'', PStr ''2024-01-31'')]
        ''multiplier'' (PInt 1)) = Inr 1
   \<and> py_int example_runtime (get_or
        [(''apiKey'', PStr ''key''), (''stocksTicker'', PStr ''AAPL''),
         (''start_date'', PStr ''2024-01-01''), (''end_date'', PStr ''2024-01-31'')]
        ''limit'' (PInt 50000)) = Inr 50000
   \<and> truthy example_runtime (get_or
        [(''apiKey'', PStr ''key''), (''stocksTicker'', PStr ''AAPL''),
         (''start_date'', PStr ''2024-01-01''), (''end_date'', PStr ''2024-01-31'')]
        ''apiKey'' PNone)
   \<and> truthy example_runtime (get_or
        [(''apiKey'', PStr ''key''), (''stocksTicker'', PStr ''AAPL''),
         (''start_date'', PStr ''2024-01-01''), (''end_date'', PStr ''2024-01-31'')]
        ''start_date'' PNone)
   \<and> truthy example_runtime (get_or
        [(''apiKey'', PStr ''key''), (''stocksTicker'', PStr ''AAPL''),
         (''start_date'', PStr ''2024-01-01''), (''end_date'', PStr ''2024-01-31'')]
        ''end_date'' PNone)
   \<and> truthy example_runtime (get_or
        [(''apiKey'', PStr ''key''), (''stocksTicker'', PStr ''AAPL''),
         (''start_date'', PStr ''2024-01-01''), (''end_date'', PStr ''2024-01-31'')]
        ''timespan'' (PStr ''minute''))
   \<and> (\<exists>p. resolve_polygon_cfg example_runtime
        [(''polygon'', PDict [(''apiKey'', PStr ''key''), (''stocksTicker'', PStr ''AAPL''),
           (''start_date'', PStr ''2024-01-01''), (''end_date'', PStr ''2024-01-31'')])]
        None (Some ''IBM'') = Inr p
        \<and> dict_get p ''stocksTicker'' = Some (PStr ''IBM''))
   \<and> (\<exists>p. resolve_polygon_cfg example_runtime
        [(''polygon'', PDict [(''apiKey'', PStr ''key''), (''stocksTicker'', PStr ''AAPL''),
           (''start_date'', PStr ''2024-01-01''), (''end_date'', PStr ''2024-01-31'')])]
        (Some ''MSFT'') (Some ''IBM'') = Inr p
        \<and> dict_get p ''stocksTicker'' = Some (PStr ''IBM''))
   \<and> (\<exists>p. resolve_polygon_cfg example_runtime
        [(''polygon'', PDict [(''apiKey'', PStr ''key''), (''stocksTicker'', PStr ''AAPL''),
           (''start_date'', PStr ''2024-01-01''), (''end_date'', PStr ''2024-01-31'')])]
        (Some ''MSFT'') None = Inr p
        \<and> dict_get p ''stocksTicker'' = Some (PStr ''MSFT''))
   \<and> (\<exists>p. resolve_polygon_cfg example_runtime
        [(''polygon'', PDict [(''apiKey'', PStr ''key''), (''stocksTicker'', PStr ''AAPL''),
           (''start_date'', PStr ''2024-01-01''), (''end_date'', PStr ''2024-01-31'')])]
        None None = Inr p
        \<and> dict_get p ''stocksTicker'' = Some (PStr ''AAPL''))
   \<and> resolve_polygon_cfg example_runtime
        [(''polygon'', PDict [(''apiKey'', PStr ''key''), (''stocksTicker'', PStr ''AAPL''),
           (''start_date'', PStr ''2024-01-01''), (''end_date'', PStr ''2024-01-31'')])]
        None (Some ''IBM'') =
       Inr [(''apiKey'', PStr ''key''), (''stocksTicker'', PStr ''IBM''),
            (''start_date'', PStr ''2024-01-01''), (''end_date'', PStr ''2024-01-31''),
            (''multiplier'', PInt 1), (''timespan'', PStr ''minute''),
            (''adjusted'', PBool True), (''sort'', PStr ''asc''), (''limit'', PInt 50000)]"
proof -
  let ?sec = "[(''apiKey'', PStr ''key''), (''stocksTicker'', PStr ''AAPL''),
        (''start_date'', PStr ''2024-01-01''), (''end_date'', PStr ''2024-01-31'')] :: int dict"
  let ?cfg = "[(''polygon'', PDict ?sec)]"
  have h1: "dict_get ?cfg ''polygon'' = Some (PDict ?sec)" by (simp add: dict_get_def)
  have h2: "py_int example_runtime (get_or ?sec ''multiplier'' (PInt 1)) = Inr 1"
    by (simp add: get_or_def)
  have h3: "py_int example_runtime (get_or ?sec ''limit'' (PInt 50000)) = Inr 50000"
    by (simp add: get_or_def)
  have h4: "truthy example_runtime (get_or ?sec ''apiKey'' PNone)" by (simp add: get_or_def)
  have h5: "truthy example_runtime (get_or ?sec ''start_date'' PNone)" by (simp add: get_or_def)
  have h6: "truthy example_runtime (get_or ?sec ''end_date'' PNone)" by (simp add: get_or_def)
  have h7: "truthy example_runtime (get_or ?sec ''timespan'' (PStr ''minute''))"
    by (simp add: get_or_def)
  have h8: "truthy example_runtime (get_or ?sec ''stocksTicker'' PNone)" by (simp add: get_or_def)
  have h9: "dict_get ?sec ''stocksTicker'' = Some (PStr ''AAPL'')" by (simp add: dict_get_def)
  have h: "dict_get ?cfg ''polygon'' = Some (PDict ?sec)
        \<and> py_int example_runtime (get_or ?sec ''multiplier'' (PInt 1)) = Inr 1 \<and> (1::int) \<noteq> 0
        \<and> py_int example_runtime (get_or ?sec ''limit'' (PInt 50000)) = Inr 50000
        \<and> truthy example_runtime (get_or ?sec ''apiKey'' PNone)
        \<and> truthy example_runtime (get_or ?sec ''start_date'' PNone)
        \<and> truthy example_runtime (get_or ?sec ''end_date'' PNone)
        \<and> truthy example_runtime (get_or ?sec ''timespan'' (PStr ''minute''))"
    using h1 h2 h3 h4 h5 h6 h7 by simp
  note a = resolve_polygon_cfg_ticker
    [of example_runtime ?cfg None "Some ''IBM''", THEN conjunct2, rule_format, OF h]
  note b = resolve_polygon_cfg_ticker
    [of example_runtime ?cfg "Some ''MSFT''" "Some ''IBM''", THEN conjunct2, rule_format, OF h]
  note c = resolve_polygon_cfg_ticker
    [of example_runtime ?cfg "Some ''MSFT''" None, THEN conjunct2, rule_format, OF h]
  note d = resolve_polygon_cfg_ticker
    [of example_runtime ?cfg None None, THEN conjunct2, rule_format, OF h]
  have r1: "\<exists>p. resolve_polygon_cfg example_runtime ?cfg None (Some ''IBM'') = Inr p
        \<and> dict_get p ''stocksTicker'' = Some (PStr ''IBM'')"
    using a by simp
  have r2: "\<exists>p. resolve_polygon_cfg example_runtime ?cfg (Some ''MSFT'') (Some ''IBM'') = Inr p
        \<and> dict_get p ''stocksTicker'' = Some (PStr ''IBM'')"
    using b by simp
  have r3: "\<exists>p. resolve_polygon_cfg example_runtime ?cfg (Some ''MSFT'') None = Inr p
        \<and> dict_get p ''stocksTicker'' = Some (PStr ''MSFT'')"
    using c by simp
  have r4: "\<exists>p. resolve_polygon_cfg example_runtime ?cfg None None = Inr p
        \<and> dict_get p ''stocksTicker'' = Some (PStr ''AAPL'')"
    using d h8 h9 by simp
  have r5: "resolve_polygon_cfg example_runtime ?cfg None (Some ''IBM'') =
       Inr [(''apiKey'', PStr ''key''), (''stocksTicker'', PStr ''IBM''),
            (''start_date'', PStr ''2024-01-01''), (''end_date'', PStr ''2024-01-31''),
            (''multiplier'', PInt 1), (''timespan'', PStr ''minute''),
            (''adjusted'', PBool True), (''sort'', PStr ''asc''), (''limit'', PInt 50000)]"
    by code_simp
  from h1 h2 h3 h4 h5 h6 h7 r1 r2 r3 r4 r5 show ?thesis by (intro conjI)
qed

section \<open>The tolerant boolean\<close>

text \<open>
  C9, as stated: every value that is not a boolean parses to true exactly when its
  stripped, lower-cased string form is one of 1, true, t, yes, y. \<open>None\<close> is not: its
  string form is \<open>None\<close>, and \<open>_as_bool\<close> returns the default, which \<open>resolve_polygon_cfg\<close>
  sets to true. A polygon section with the key \<open>adjusted\<close> and no value is resolved with
  \<open>adjusted = True\<close>.
\<close>

theorem as_bool_tolerant_counterexample:
  "as_bool example_runtime PNone True
   \<and> lower (strip (py_str example_runtime PNone)) = ''none''
   \<and> ''none'' \<notin> {''1'', ''true'', ''t'', ''yes'', ''y''}
   \<and> resolve_polygon_cfg example_runtime
       [(''polygon'', PDict [(''apiKey'', PStr ''key''), (''stocksTicker'', PStr ''AAPL''),
          (''start_date'', PStr ''2024-01-01''), (''end_date'', PStr ''2024-01-31''),
          (''adjusted'', PNone)])]
       None None =
     Inr [(''apiKey'', PStr ''key''), (''stocksTicker'', PStr ''AAPL''),
          (''start_date'', PStr ''2024-01-01''), (''end_date'', PStr ''2024-01-31''),
          (''adjusted'', PBool True), (''multiplier'', PInt 1), (''timespan'', PStr ''minute''),
          (''sort'', PStr ''asc''), (''limit'', PInt 50000)]"
proof -
  have "as_bool example_runtime PNone True" by (simp add: as_bool_def)
  moreover have "lower (strip (py_str example_runtime PNone)) = ''none''" by code_simp
  moreover have "''none'' \<notin> {''1'', ''true'', ''t'', ''yes'', ''y''}" by simp
  moreover have "resolve_polygon_cfg example_runtime
       [(''polygon'', PDict [(''apiKey'', PStr ''key''), (''stocksTicker'', PStr ''AAPL''),
          (''start_date'', PStr ''2024-01-01''), (''end_date'', PStr ''2024-01-31''),
          (''adjusted'', PNone)])]
       None None =
     Inr [(''apiKey'', PStr ''key''), (''stocksTicker'', PStr ''AAPL''),
          (''start_date'', PStr ''2024-01-01''), (''end_date'', PStr ''2024-01-31''),
          (''adjusted'', PBool True), (''multiplier'', PInt 1), (''timespan'', PStr ''minute''),
          (''sort'', PStr ''asc''), (''limit'', PInt 50000)]" by code_simp
  ultimately show ?thesis by blast
qed

text \<open>
  C9, amended. For every value that is neither a boolean nor \<open>None\<close>, \<open>_as_bool\<close>
  returns true exactly when the stripped, lower-cased string form of the value is one
  of 1, true, t, yes, y; \<open>None\<close> parses to the default. The function is total: no value
  makes it fail.
\<close>

theorem as_bool_tolerant:
  assumes "v \<noteq> PNone" and "\<forall>b. v \<noteq> PBool b"
  shows "(as_bool rt v dflt \<longleftrightarrow>
            lower (strip (py_str rt v)) \<in> {''1'', ''true'', ''t'', ''yes'', ''y''})
         \<and> as_bool rt PNone dflt = dflt"
proof (cases v)
  case (PBool b)
  with assms(2) show ?thesis by blast
qed (use assms(1) in \<open>simp_all add: as_bool_def\<close>)

theorem as_bool_tolerant_witness:
  "(PStr '' Yes '' :: int pyval) \<noteq> PNone
   \<and> lower (strip (py_str example_runtime (PStr '' Yes ''))) = ''yes''
   \<and> as_bool example_runtime (PStr '' Yes '') False
   \<and> (PStr ''on'' :: int pyval) \<noteq> PNone
   \<and> lower (strip (py_str example_runtime (PStr ''on''))) = ''on''
   \<and> \<not> as_bool example_runtime (PStr ''on'') True
   \<and> (PInt 1 :: int pyval) \<noteq> PNone
   \<and> lower (strip (py_str example_runtime (PInt 1))) = ''1''
   \<and> as_bool example_runtime (PInt 1) False"
proof -
  have y: "lower (strip (py_str example_runtime (PStr '' Yes ''))) = ''yes''" by code_simp
  have n: "lower (strip (py_str example_runtime (PStr ''on''))) = ''on''" by code_simp
  have i: "lower (strip (py_str example_runtime (PInt 1))) = ''1''" by code_simp
  have "as_bool example_runtime (PStr '' Yes '') False"
    using as_bool_tolerant [of "PStr '' Yes ''" example_runtime False] y by simp
  moreover have "\<not> as_bool example_runtime (PStr ''on'') True"
    using as_bool_tolerant [of "PStr ''on''" example_runtime True] n by simp
  moreover have "as_bool example_runtime (PInt 1) False"
    using as_bool_tolerant [of "PInt 1" example_runtime False] i by simp
  ultimately show ?thesis using y n i by simp
qed

section \<open>Missing fields\<close>

text \<open>
  C7, as stated: a document in which two or more required fields are missing or empty
  is rejected with one error that lists them all. Two things stand against it. A
  section without \<open>timespan\<close> and \<open>multiplier\<close> is accepted, since both have defaults;
  and \<open>int\<close> is applied to the multiplier and the limit before the required fields are
  looked at, so a section with an empty multiplier and no API key ends in the
  \<open>TypeError\<close> of \<open>int(None)\<close>, which names no field.
\<close>

theorem missing_fields_reported_counterexample:
  "resolve_polygon_cfg example_runtime
     [(''polygon'', PDict [(''apiKey'', PStr ''key''), (''stocksTicker'', PStr ''AAPL''),
        (''start_date'', PStr ''2024-01-01''), (''end_date'', PStr ''2024-01-31'')])]
     None None =
   Inr [(''apiKey'', PStr ''key''), (''stocksTicker'', PStr ''AAPL''),
        (''start_date'', PStr ''2024-01-01''), (''end_date'', PStr ''2024-01-31''),
        (''multiplier'', PInt 1), (''timespan'', PStr ''minute''),
        (''adjusted'', PBool True), (''sort'', PStr ''asc''), (''limit'', PInt 50000)]
   \<and> resolve_polygon_cfg example_runtime
     [(''polygon'', PDict [(''stocksTicker'', PStr ''AAPL''), (''start_date'', PStr ''2024-01-01''),
        (''multiplier'', PNone)])]
     None None =
   Inl (TypeError ''int() argument must be a string, a bytes-like object or a real number'')"
  by code_simp

text \<open>
  C7, amended. Whether a field is missing is judged after the overrides and the
  defaults: a required field is missing when its value in the normalized section is
  absent or false. When \<open>int\<close> accepts the multiplier and the limit, the section is
  normalized (the API key and the dates as the document has them, the timespan
  defaulting to \<open>minute\<close>, the multiplier as an integer), and if some required field is
  missing, \<open>resolve_polygon_cfg\<close> raises one \<open>ValueError\<close> whose text is
  \<open>Missing polygon config fields: \<close> followed by every missing required field, in the
  order of the list of required fields, separated by a comma and a space. For a mysql
  section that is a dictionary \<open>resolve_mysql_cfg\<close> does the same with
  \<open>Missing MySQL config fields: \<close> and its own list.
\<close>

theorem missing_fields_reported:
  "(dict_get cfg ''polygon'' = Some (PDict p0)
      \<and> py_int rt (get_or p0 ''multiplier'' (PInt 1)) = Inr m
      \<and> py_int rt (get_or p0 ''limit'' (PInt 50000)) = Inr l
    \<longrightarrow> (\<exists>p. normalize_types rt (apply_defaults (apply_overrides p0 ov env)) = Inr p
          \<and> get_or p ''apiKey'' PNone = get_or p0 ''apiKey'' PNone
          \<and> get_or p ''start_date'' PNone = get_or p0 ''start_date'' PNone
          \<and> get_or p ''end_date'' PNone = get_or p0 ''end_date'' PNone
          \<and> get_or p ''timespan'' PNone = get_or p0 ''timespan'' (PStr ''minute'')
          \<and> get_or p ''multiplier'' PNone = PInt m
          \<and> (\<forall>k. k \<in> set (missing_fields rt polygon_required p) \<longleftrightarrow>
                 k \<in> set polygon_required \<and> \<not> truthy rt (get_or p k PNone))
          \<and> (missing_fields rt polygon_required p \<noteq> [] \<longrightarrow>
               resolve_polygon_cfg rt cfg ov env =
                 Inl (ValueError (''Missing polygon config fields: ''
                        @ join '', '' (missing_fields rt polygon_required p))))))
   \<and> (dict_get cfg ''mysql'' = Some (PDict m0) \<longrightarrow>
        (\<forall>k. k \<in> set (missing_fields rt mysql_required m0) \<longleftrightarrow>
               k \<in> set mysql_required \<and> \<not> truthy rt (get_or m0 k PNone))
        \<and> (missing_fields rt mysql_required m0 \<noteq> [] \<longrightarrow>
             resolve_mysql_cfg rt cfg =
               Inl (ValueError (''Missing MySQL config fields: ''
                      @ join '', '' (missing_fields rt mysql_required m0)))))"
proof (intro conjI impI)
  assume a: "dict_get cfg ''polygon'' = Some (PDict p0)
      \<and> py_int rt (get_or p0 ''multiplier'' (PInt 1)) = Inr m
      \<and> py_int rt (get_or p0 ''limit'' (PInt 50000)) = Inr l"
  let ?d = "apply_defaults (apply_overrides p0 ov env)"
  have mv: "map_of ?d ''multiplier'' = Some (get_or p0 ''multiplier'' (PInt 1))"
    by (simp add: map_of_apply_defaults map_of_apply_overrides get_or_def split: option.splits)
  have lv: "map_of ?d ''limit'' = Some (get_or p0 ''limit'' (PInt 50000))"
    by (simp add: map_of_apply_defaults map_of_apply_overrides get_or_def split: option.splits)
  have sv: "map_of ?d ''sort'' = Some (get_or p0 ''sort'' (PStr ''asc''))"
    by (simp add: map_of_apply_defaults map_of_apply_overrides get_or_def split: option.splits)
  from a normalize_types_defined [OF mv _ lv _ sv] obtain p where
    p: "normalize_types rt ?d = Inr p" by blast
  have o1: "map_of p ''apiKey'' = map_of ?d ''apiKey''"
    by (rule normalize_types_other [OF p]) simp_all
  have o2: "map_of p ''start_date'' = map_of ?d ''start_date''"
    by (rule normalize_types_other [OF p]) simp_all
  have o3: "map_of p ''end_date'' = map_of ?d ''end_date''"
    by (rule normalize_types_other [OF p]) simp_all
  have o4: "map_of p ''timespan'' = map_of ?d ''timespan''"
    by (rule normalize_types_other [OF p]) simp_all
  from normalize_types_ints [OF p] mv a
  have o5: "map_of p ''multiplier'' = Some (PInt m)" by auto
  have g1: "get_or p ''apiKey'' PNone = get_or p0 ''apiKey'' PNone"
    using o1 by (simp add: get_or_def map_of_apply_defaults map_of_apply_overrides split: option.splits)
  have g2: "get_or p ''start_date'' PNone = get_or p0 ''start_date'' PNone"
    using o2 by (simp add: get_or_def map_of_apply_defaults map_of_apply_overrides split: option.splits)
  have g3: "get_or p ''end_date'' PNone = get_or p0 ''end_date'' PNone"
    using o3 by (simp add: get_or_def map_of_apply_defaults map_of_apply_overrides split: option.splits)
  have g4: "get_or p ''timespan'' PNone = get_or p0 ''timespan'' (PStr ''minute'')"
    using o4 by (simp add: get_or_def map_of_apply_defaults map_of_apply_overrides split: option.splits)
  have g5: "get_or p ''multiplier'' PNone = PInt m"
    using o5 by (simp add: get_or_def)
  have g6: "\<forall>k. k \<in> set (missing_fields rt polygon_required p) \<longleftrightarrow>
                 k \<in> set polygon_required \<and> \<not> truthy rt (get_or p k PNone)"
    by (simp add: missing_fields_def)
  have g7: "missing_fields rt polygon_required p \<noteq> [] \<longrightarrow>
               resolve_polygon_cfg rt cfg ov env =
                 Inl (ValueError (''Missing polygon config fields: ''
                        @ join '', '' (missing_fields rt polygon_required p)))"
    using a p by (simp add: resolve_polygon_cfg_def Let_def)
  from p g1 g2 g3 g4 g5 g6 g7
  show "\<exists>p. normalize_types rt ?d = Inr p
          \<and> get_or p ''apiKey'' PNone = get_or p0 ''apiKey'' PNone
          \<and> get_or p ''start_date'' PNone = get_or p0 ''start_date'' PNone
          \<and> get_or p ''end_date'' PNone = get_or p0 ''end_date'' PNone
          \<and> get_or p ''timespan'' PNone = get_or p0 ''timespan'' (PStr ''minute'')
          \<and> get_or p ''multiplier'' PNone = PInt m
          \<and> (\<forall>k. k \<in> set (missing_fields rt polygon_required p) \<longleftrightarrow>
                 k \<in> set polygon_required \<and> \<not> truthy rt (get_or p k PNone))
          \<and> (missing_fields rt polygon_required p \<noteq> [] \<longrightarrow>
               resolve_polygon_cfg rt cfg ov env =
                 Inl (ValueError (''Missing polygon config fields: ''
                        @ join '', '' (missing_fields rt polygon_required p))))"
    by blast
next
  assume "dict_get cfg ''mysql'' = Some (PDict m0)"
  show "\<forall>k. k \<in> set (missing_fields rt mysql_required m0) \<longleftrightarrow>
               k \<in> set mysql_required \<and> \<not> truthy rt (get_or m0 k PNone)"
    by (simp add: missing_fields_def)
next
  assume "dict_get cfg ''mysql'' = Some (PDict m0)"
    and "missing_fields rt mysql_required m0 \<noteq> []"
  then show "resolve_mysql_cfg rt cfg =
               Inl (ValueError (''Missing MySQL config fields: ''
                      @ join '', '' (missing_fields rt mysql_required m0)))"
    by (simp add: resolve_mysql_cfg_def Let_def)
qed

theorem missing_fields_reported_witness:
  "dict_get
     [(''polygon'', PDict
         [(''stocksTicker'', PStr ''AAPL''), (''start_date'', PStr ''2024-01-01''),
          (''multiplier'', PInt 0), (''timespan'', PStr [])]),
      (''mysql'', PDict
         [(''host'', PStr ''localhost''), (''port'', PInt 3306), (''username'', PStr [])])]
     ''polygon'' = Some (PDict
         [(''stocksTicker'', PStr ''AAPL''), (''start_date'', PStr ''2024-01-01''),
          (''multiplier'', PInt 0), (''timespan'', PStr [] :: int pyval)])
   \<and> py_int example_runtime (get_or
         [(''stocksTicker'', PStr ''AAPL''), (''start_date'', PStr ''2024-01-01''),
          (''multiplier'', PInt 0), (''timespan'', PStr [])]
         ''multiplier'' (PInt 1)) = Inr 0
   \<and> py_int example_runtime (get_or
         [(''stocksTicker'', PStr ''AAPL''), (''start_date'', PStr ''2024-01-01''),
          (''multiplier'', PInt 0), (''timespan'', PStr [])]
         ''limit'' (PInt 50000)) = Inr 50000
   \<and> resolve_polygon_cfg example_runtime
     [(''polygon'', PDict
         [(''stocksTicker'', PStr ''AAPL''), (''start_date'', PStr ''2024-01-01''),
          (''multiplier'', PInt 0), (''timespan'', PStr [])]),
      (''mysql'', PDict
         [(''host'', PStr ''localhost''), (''port'', PInt 3306), (''username'', PStr [])])]
     None None =
     Inl (ValueError ''Missing polygon config fields: apiKey, end_date, timespan, multiplier'')
   \<and> dict_get
     [(''polygon'', PDict
         [(''stocksTicker'', PStr ''AAPL''), (''start_date'', PStr ''2024-01-01''),
          (''multiplier'', PInt 0), (''timespan'', PStr [])]),
      (''mysql'', PDict
         [(''host'', PStr ''localhost''), (''port'', PInt 3306), (''username'', PStr [])])]
     ''mysql'' = Some (PDict
         [(''host'', PStr ''localhost''), (''port'', PInt 3306), (''username'', PStr [] :: int pyval)])
   \<and> resolve_mysql_cfg example_runtime
     [(''polygon'', PDict
         [(''stocksTicker'', PStr ''AAPL''), (''start_date'', PStr ''2024-01-01''),
          (''multiplier'', PInt 0), (''timespan'', PStr [])]),
      (''mysql'', PDict
         [(''host'', PStr ''localhost''), (''port'', PInt 3306), (''username'', PStr [])])] =
     Inl (ValueError ''Missing MySQL config fields: database, username, password'')"
proof -
  let ?polygon = "[(''stocksTicker'', PStr ''AAPL''), (''start_date'', PStr ''2024-01-01''),
          (''multiplier'', PInt 0), (''timespan'', PStr [])] :: int dict"
  let ?mysql = "[(''host'', PStr ''localhost''), (''port'', PInt 3306), (''username'', PStr [])] :: int dict"
  let ?cfg = "[(''polygon'', PDict ?polygon), (''mysql'', PDict ?mysql)]"
  let ?res = "[(''stocksTicker'', PStr ''AAPL''), (''start_date'', PStr ''2024-01-01''),
             (''multiplier'', PInt 0), (''timespan'', PStr []), (''adjusted'', PBool True),
             (''sort'', PStr ''asc''), (''limit'', PInt 50000)] :: int dict"
  have sec: "dict_get ?cfg ''polygon'' = Some (PDict ?polygon)" by (simp add: dict_get_def)
  have m: "py_int example_runtime (get_or ?polygon ''multiplier'' (PInt 1)) = Inr 0"
    by (simp add: get_or_def)
  have l: "py_int example_runtime (get_or ?polygon ''limit'' (PInt 50000)) = Inr 50000"
    by (simp add: get_or_def)
  have my: "dict_get ?cfg ''mysql'' = Some (PDict ?mysql)" by (simp add: dict_get_def)
  have n: "normalize_types example_runtime (apply_defaults (apply_overrides ?polygon None None)) = Inr ?res"
    by code_simp
  have mp: "missing_fields example_runtime polygon_required ?res =
              [''apiKey'', ''end_date'', ''timespan'', ''multiplier'']"
    by code_simp
  have mm: "missing_fields example_runtime mysql_required ?mysql =
              [''database'', ''username'', ''password'']"
    by code_simp
  note inst = missing_fields_reported
    [of ?cfg ?polygon example_runtime 0 50000 None None ?mysql]
  from inst sec m l n mp
  have a: "resolve_polygon_cfg example_runtime ?cfg None None =
     Inl (ValueError ''Missing polygon config fields: apiKey, end_date, timespan, multiplier'')"
    by auto
  from inst my mm
  have b: "resolve_mysql_cfg example_runtime ?cfg =
     Inl (ValueError ''Missing MySQL config fields: database, username, password'')"
    by auto
  from sec m l a my b show ?thesis by blast
qed

section \<open>Batches and the loading loop\<close>

text \<open>
  The slices \<open>chunked\<close> yields, from any start \<open>i\<close>: together they are the rest of
  the list, and there are as many as steps of \<open>range\<close>.
\<close>

lemma range_step_concat:
  assumes "0 < B"
  shows "concat (map (\<lambda>i. take B (drop i xs)) (range_step i (length xs) B)) = drop i xs"
  using assms
proof (induction i "length xs" B rule: range_step.induct)
  case (1 i step)
  show ?case
  proof (cases "i < length xs")
    case True
    with 1 have ih: "concat (map (\<lambda>i. take step (drop i xs)) (range_step (i + step) (length xs) step))
                  = drop (i + step) xs"
      by simp
    have "drop (i + step) xs = drop step (drop i xs)"
      by (simp add: add.commute)
    with ih have "take step (drop i xs)
        @ concat (map (\<lambda>i. take step (drop i xs)) (range_step (i + step) (length xs) step))
        = drop i xs"
      by (simp only: append_take_drop_id)
    with True 1(2) show ?thesis by (subst range_step.simps) simp
  next
    case False
    then show ?thesis by (subst range_step.simps) simp
  qed
qed

lemma range_step_length:
  assumes "0 < B"
  shows "length (range_step i n B) = (n - i + B - 1) div B"
  using assms
proof (induction i n B rule: range_step.induct)
  case (1 i n step)
  show ?case
  proof (cases "i < n")
    case True
    with 1 have ih: "length (range_step (i + step) n step) = (n - (i + step) + step - 1) div step"
      by simp
    have "(n - i + step - 1) div step = Suc ((n - (i + step) + step - 1) div step)"
    proof (cases "i + step \<le> n")
      case True
      then have e: "n - i + step - 1 = (n - (i + step) + step - 1) + step"
        using 1(2) by simp
      have "((n - (i + step) + step - 1) + step) div step = Suc ((n - (i + step) + step - 1) div step)"
        using 1(2) by (simp only: div_add_self2)
      with e show ?thesis by simp
    next
      case False
      with True 1(2) have "step \<le> n - i + step - 1" "n - i + step - 1 < 2 * step"
        by simp_all
      then have "(n - i + step - 1) div step = 1"
        by (intro div_nat_eqI) simp_all
      moreover from False have "(n - (i + step) + step - 1) div step = 0"
        using 1(2) by simp
      ultimately show ?thesis by simp
    qed
    with ih True 1(2) show ?thesis by (subst range_step.simps) simp
  next
    case False
    then have "n - i + step - 1 < step" using 1(2) by simp
    with False show ?thesis by (subst range_step.simps) simp
  qed
qed

lemma range_step_bound:
  "k \<in> set (range_step i n B) \<Longrightarrow> k < n"
proof (induction i n B rule: range_step.induct)
  case (1 i n step)
  show ?case
  proof (cases "0 < step \<and> i < n")
    case True
    with 1(2) have "k = i \<or> k \<in> set (range_step (i + step) n step)"
      by (subst (asm) range_step.simps) simp
    with True 1(1) show ?thesis by blast
  next
    case False
    with 1(2) show ?thesis by (subst (asm) range_step.simps) simp
  qed
qed

lemma ceiling_div_nat:
  assumes "0 < B"
  shows "\<lceil>real n / real B\<rceil> = int ((n + B - 1) div B)"
proof (rule ceiling_unique)
  let ?z = "(n + B - 1) div B"
  have up: "n + B - 1 < ?z * B + B"
    using assms by (metis add.commute dividend_less_div_times mult.commute)
  have lo: "?z * B \<le> n + B - 1"
    by simp
  from up assms have "n \<le> ?z * B" by simp
  then have "real n \<le> real (?z * B)" by (simp only: of_nat_le_iff)
  then show "real n / real B \<le> of_int (int ?z)"
    using assms by (simp add: field_simps)
  have "real (?z * B) < real n + real B"
    using lo assms by (metis (no_types) of_nat_add of_nat_less_iff le_less_trans diff_less less_add_same_cancel1 zero_less_one add_gr_0 less_le_trans linorder_not_less nat_less_le)
  then show "of_int (int ?z) - 1 < real n / real B"
    using assms by (simp add: field_simps)
qed

lemma chunked_positive:
  assumes "0 < B"
  shows "chunked rows B =
           Inr (map (\<lambda>i. take (nat B) (drop i rows)) (range_step 0 (length rows) (nat B)))"
  using assms by (simp add: chunked_def)

lemma load_loop_all_commit:
  assumes "\<forall>d b. \<not> isl (transact d b)"
  shows "\<exists>st'. load_loop transact bs st = (st', None)
          \<and> store st' = foldl (\<lambda>d b. projr (transact d b)) (store st) bs
          \<and> committed st' = committed st @ bs
          \<and> total st' = total st + length (concat bs)
          \<and> progress st' = progress st
               @ map (\<lambda>k. total st + length (concat (take (Suc k) bs))) [0..<length bs]"
proof (induction bs arbitrary: st)
  case Nil
  show ?case by simp
next
  case (Cons b bs)
  from assms have "\<not> isl (transact (store st) b)" by blast
  then obtain d where d: "transact (store st) b = Inr d"
    by (cases "transact (store st) b") simp_all
  let ?st = "st\<lparr>store := d, committed := committed st @ [b],
                  total := total st + length b,
                  progress := progress st @ [total st + length b]\<rparr>"
  from Cons.IH [of ?st] obtain st' where
    l: "load_loop transact bs ?st = (st', None)" and
    s: "store st' = foldl (\<lambda>d b. projr (transact d b)) (store ?st) bs" and
    c: "committed st' = committed ?st @ bs" and
    t: "total st' = total ?st + length (concat bs)" and
    p: "progress st' = progress ?st
          @ map (\<lambda>k. total ?st + length (concat (take (Suc k) bs))) [0..<length bs]"
    by blast
  have "map (\<lambda>k. total st + length (concat (take (Suc k) (b # bs)))) [0..<length (b # bs)]
      = (total st + length b)
        # map (\<lambda>k. total st + length b + length (concat (take (Suc k) bs))) [0..<length bs]"
    by (simp add: map_upt_Suc del: upt_Suc)
  with p have "progress st' = progress st
      @ map (\<lambda>k. total st + length (concat (take (Suc k) (b # bs)))) [0..<length (b # bs)]"
    by simp
  with d l s c t show ?case by simp
qed

text \<open>
  C6. For a batch size \<open>B > 0\<close>, \<open>chunked\<close> yields \<open>ceil(N / B)\<close> batches of a list
  of \<open>N\<close> rows, none empty and none longer than \<open>B\<close>, whose concatenation in order is
  the list; and when every transaction succeeds, the loop of \<open>main\<close> runs one
  transaction per batch, in order: the store it ends with is the store obtained by
  applying the transaction to the first batch, then to the second, and so on. It
  commits exactly these batches, prints after the \<open>k\<close>-th the number of rows of the
  first \<open>k\<close> batches, and ends with \<open>total = N\<close>, which is also the last total it
  prints.
\<close>

theorem chunked_load:
  assumes "0 < B"
  shows "\<exists>bs. chunked (rows :: 'r list) B = Inr bs
    \<and> concat bs = rows
    \<and> int (length bs) = \<lceil>real (length rows) / real_of_int B\<rceil>
    \<and> (\<forall>b \<in> set bs. b \<noteq> [] \<and> int (length b) \<le> B)
    \<and> sum_list (map length bs) = length rows
    \<and> (\<forall>(transact :: 'db \<Rightarrow> 'r list \<Rightarrow> error + 'db) db.
          (\<forall>d b. \<not> isl (transact d b)) \<longrightarrow>
          (\<exists>st. load_rows transact db rows B = (st, None)
             \<and> store st = foldl (\<lambda>d b. projr (transact d b)) db bs
             \<and> committed st = bs
             \<and> total st = length rows
             \<and> progress st = map (\<lambda>k. length (concat (take (Suc k) bs))) [0..<length bs]
             \<and> length (progress st) = length bs
             \<and> (rows \<noteq> [] \<longrightarrow> last (progress st) = length rows)))"
proof -
  let ?n = "nat B"
  let ?bs = "map (\<lambda>i. take ?n (drop i rows)) (range_step 0 (length rows) ?n)"
  from assms have pos: "0 < ?n" by simp
  have ch: "chunked rows B = Inr ?bs" by (rule chunked_positive [OF assms])
  have cc: "concat ?bs = rows"
    using range_step_concat [OF pos, of rows 0] by simp
  have "length ?bs = (length rows + ?n - 1) div ?n"
    using range_step_length [OF pos, of 0 "length rows"] by simp
  then have "int (length ?bs) = \<lceil>real (length rows) / real ?n\<rceil>"
    using ceiling_div_nat [OF pos, of "length rows"] by simp
  moreover from assms have "real ?n = real_of_int B" by simp
  ultimately have ln: "int (length ?bs) = \<lceil>real (length rows) / real_of_int B\<rceil>"
    by simp
  have ne: "\<forall>b \<in> set ?bs. b \<noteq> [] \<and> int (length b) \<le> B"
    using assms by (auto dest: range_step_bound)
  have sm: "sum_list (map length ?bs) = length rows"
    using cc by (metis length_concat)
  have ld: "\<forall>(transact :: 'db \<Rightarrow> 'r list \<Rightarrow> error + 'db) db.
          (\<forall>d b. \<not> isl (transact d b)) \<longrightarrow>
          (\<exists>st. load_rows transact db rows B = (st, None)
             \<and> store st = foldl (\<lambda>d b. projr (transact d b)) db ?bs
             \<and> committed st = ?bs
             \<and> total st = length rows
             \<and> progress st = map (\<lambda>k. length (concat (take (Suc k) ?bs))) [0..<length ?bs]
             \<and> length (progress st) = length ?bs
             \<and> (rows \<noteq> [] \<longrightarrow> last (progress st) = length rows))"
  proof (intro allI impI)
    fix transact :: "'db \<Rightarrow> 'r list \<Rightarrow> error + 'db" and db :: 'db
    assume ok: "\<forall>d b. \<not> isl (transact d b)"
    let ?st = "\<lparr>store = db, committed = [], total = 0, progress = []\<rparr> :: ('db, 'r) loader"
    from load_loop_all_commit [OF ok, of ?bs ?st] obtain st where
      l: "load_loop transact ?bs ?st = (st, None)" and
      s: "store st = foldl (\<lambda>d b. projr (transact d b)) db ?bs" and
      c: "committed st = ?bs" and
      t: "total st = length (concat ?bs)" and
      p: "progress st = map (\<lambda>k. length (concat (take (Suc k) ?bs))) [0..<length ?bs]"
      by auto
    from p have n: "length (progress st) = length ?bs" by simp
    have lst: "rows \<noteq> [] \<longrightarrow> last (progress st) = length rows"
    proof
      assume "rows \<noteq> []"
      with cc have ne: "?bs \<noteq> []" by auto
      then have "[0..<length ?bs] \<noteq> []" by simp
      then have "last (map (\<lambda>k. length (concat (take (Suc k) ?bs))) [0..<length ?bs]) =
          length (concat (take (Suc (last [0..<length ?bs])) ?bs))"
        by (rule last_map)
      with p have "last (progress st) =
          length (concat (take (Suc (last [0..<length ?bs])) ?bs))"
        by (simp only:)
      moreover from ne have "last [0..<length ?bs] = length ?bs - 1"
        by (cases "length ?bs") simp_all
      moreover from ne have "Suc (length ?bs - 1) = length ?bs"
        by (cases "length ?bs") simp_all
      ultimately have "last (progress st) = length (concat (take (length ?bs) ?bs))"
        by (simp only:)
      with cc show "last (progress st) = length rows" by simp
    qed
    from l ch have "load_rows transact db rows B = (st, None)"
      by (simp add: load_rows_def)
    with s c t p n lst cc
    show "\<exists>st. load_rows transact db rows B = (st, None)
             \<and> store st = foldl (\<lambda>d b. projr (transact d b)) db ?bs
             \<and> committed st = ?bs
             \<and> total st = length rows
             \<and> progress st = map (\<lambda>k. length (concat (take (Suc k) ?bs))) [0..<length ?bs]
             \<and> length (progress st) = length ?bs
             \<and> (rows \<noteq> [] \<longrightarrow> last (progress st) = length rows)"
      by auto
  qed
  from ch cc ln ne sm ld show ?thesis by blast
qed

theorem chunked_load_witness:
  "(0::int) < 2
   \<and> chunked [10, 20, 30, 40, 50 :: nat] 2 = Inr [[10, 20], [30, 40], [50]]
   \<and> concat [[10, 20], [30, 40], [50]] = [10, 20, 30, 40, 50 :: nat]
   \<and> int (length [[10, 20], [30, 40], [50 :: nat]])
        = \<lceil>real (length [10, 20, 30, 40, 50 :: nat]) / real_of_int 2\<rceil>
   \<and> \<not> isl (Inr ([[7 :: nat]] @ [[8]]) :: error + nat list list)
   \<and> foldl (\<lambda>d b. projr (Inr (d @ [b]) :: error + nat list list)) []
        [[10, 20], [30, 40], [50]] = [[10, 20], [30, 40], [50]]
   \<and> load_rows (\<lambda>d b. Inr (d @ [b])) [] [10, 20, 30, 40, 50 :: nat] 2 =
       (\<lparr>store = [[10, 20], [30, 40], [50]], committed = [[10, 20], [30, 40], [50]],
         total = 5, progress = [2, 4, 5]\<rparr>, None)"
proof -
  let ?rows = "[10, 20, 30, 40, 50 :: nat]"
  let ?bs = "[[10, 20], [30, 40], [50 :: nat]]"
  let ?tr = "\<lambda>(d :: nat list list) (b :: nat list). Inr (d @ [b]) :: error + nat list list"
  have pos: "(0::int) < 2" by simp
  have ch: "chunked ?rows 2 = Inr ?bs"
    by (simp add: chunked_def range_step.simps)
  have ok: "\<forall>d b. \<not> isl (?tr d b)" by simp
  note inst = chunked_load [where 'db = "nat list list" and rows = ?rows, OF pos]
  from inst obtain bs where
    b1: "chunked ?rows 2 = Inr bs" and
    b2: "concat bs = ?rows" and
    b3: "int (length bs) = \<lceil>real (length ?rows) / real_of_int 2\<rceil>" and
    b4: "\<forall>(transact :: nat list list \<Rightarrow> nat list \<Rightarrow> error + nat list list) db.
          (\<forall>d b. \<not> isl (transact d b)) \<longrightarrow>
          (\<exists>st. load_rows transact db ?rows 2 = (st, None)
             \<and> store st = foldl (\<lambda>d b. projr (transact d b)) db bs
             \<and> committed st = bs
             \<and> total st = length ?rows
             \<and> progress st = map (\<lambda>k. length (concat (take (Suc k) bs))) [0..<length bs]
             \<and> length (progress st) = length bs
             \<and> (?rows \<noteq> [] \<longrightarrow> last (progress st) = length ?rows))"
    by (elim exE conjE) (rule that)
  from b1 ch have bs: "bs = ?bs" by simp
  have "\<exists>st. load_rows ?tr [] ?rows 2 = (st, None)
             \<and> store st = foldl (\<lambda>d b. projr (?tr d b)) [] bs
             \<and> committed st = bs
             \<and> total st = length ?rows
             \<and> progress st = map (\<lambda>k. length (concat (take (Suc k) bs))) [0..<length bs]
             \<and> length (progress st) = length bs
             \<and> (?rows \<noteq> [] \<longrightarrow> last (progress st) = length ?rows)"
    by (rule b4 [rule_format, of ?tr "[]"]) simp
  then obtain st where
    l: "load_rows ?tr [] ?rows 2 = (st, None)" and
    s: "store st = foldl (\<lambda>d b. projr (?tr d b)) [] bs" and
    c: "committed st = bs" and
    t: "total st = length ?rows" and
    p: "progress st = map (\<lambda>k. length (concat (take (Suc k) bs))) [0..<length bs]"
    by (elim exE conjE) (rule that)
  have fo: "foldl (\<lambda>d b. projr (?tr d b)) [] ?bs = ?bs" by simp
  from b2 bs have cc: "concat ?bs = ?rows" by simp
  from b3 bs have ln: "int (length ?bs) = \<lceil>real (length ?rows) / real_of_int 2\<rceil>"
    by simp
  have "map (\<lambda>k. length (concat (take (Suc k) ?bs))) [0..<length ?bs] = [2, 4, 5]"
    by code_simp
  with p bs have p': "progress st = [2, 4, 5]" by simp
  from s fo bs have s': "store st = ?bs" by simp
  from c bs have c': "committed st = ?bs" by simp
  from t have t': "total st = 5" by simp
  have "st = \<lparr>store = ?bs, committed = ?bs, total = 5, progress = [2, 4, 5]\<rparr>"
    using s' c' t' p' by (cases st) simp
  with l have ldc: "load_rows ?tr [] ?rows 2 =
       (\<lparr>store = ?bs, committed = ?bs, total = 5, progress = [2, 4, 5]\<rparr>, None)"
    by simp
  from pos ch cc ln fo ldc show ?thesis by simp
qed

section \<open>Retries\<close>

text \<open>
  The number of calls. When the walks numbered below \<open>n\<close> raise, walk \<open>n\<close> ends and
  \<open>n\<close> is within the budget, \<open>fetch_aggregates\<close> returns; what it returns is everything
  the walks yielded, the failed ones included, since \<open>items\<close> is created once, before
  the loop. When the walks up to the one numbered \<open>retries\<close> all raise, the exception of
  that last walk is raised again. With three failures and then a success, a budget of 5
  returns and a budget of 2 raises the third exception.
\<close>

lemma fetch_loop_succeeds:
  assumes "\<forall>k. attempt \<le> k \<and> k < n \<longrightarrow> snd (client k) \<noteq> None"
    and "snd (client n) = None" and "attempt \<le> n" and "int n \<le> retries"
  shows "fetch_loop client retries attempt items =
           Inr (items @ concat (map (\<lambda>k. map as_item (fst (client k))) [attempt..<Suc n]))"
  using assms
proof (induction "n - attempt" arbitrary: attempt items)
  case 0
  then have "attempt = n" by simp
  with 0 obtain ys where "client attempt = (ys, None)"
    by (cases "client attempt") auto
  then show ?case
    using \<open>attempt = n\<close> by (subst fetch_loop.simps) simp
next
  case (Suc d)
  then have lt: "attempt < n" by simp
  with Suc.prems obtain ys e where c: "client attempt = (ys, Some e)"
    by (cases "client attempt") (auto dest: spec [where x = attempt])
  from lt Suc.prems have nr: "\<not> int (attempt + 1) > retries" by simp
  have "fetch_loop client retries (attempt + 1) (items @ map as_item ys) =
          Inr ((items @ map as_item ys)
               @ concat (map (\<lambda>k. map as_item (fst (client k))) [attempt + 1..<Suc n]))"
    using Suc.hyps(2) Suc.prems lt by (intro Suc.hyps(1)) auto
  moreover have "[attempt..<Suc n] = attempt # [attempt + 1..<Suc n]"
    using lt by (simp add: upt_conv_Cons)
  ultimately show ?case
    using c nr by (subst fetch_loop.simps) simp
qed

lemma fetch_loop_fails:
  assumes "\<forall>k. attempt \<le> k \<and> k \<le> n \<longrightarrow> snd (client k) \<noteq> None"
    and "snd (client n) = Some e" and "attempt \<le> n" and "retries = int n"
  shows "fetch_loop client retries attempt items = Inl e"
  using assms
proof (induction "n - attempt" arbitrary: attempt items)
  case 0
  then have "attempt = n" by simp
  with 0 obtain ys where "client attempt = (ys, Some e)"
    by (cases "client attempt") auto
  then show ?case
    using \<open>attempt = n\<close> 0 by (subst fetch_loop.simps) simp
next
  case (Suc d)
  then have lt: "attempt < n" by simp
  with Suc.prems obtain ys e' where c: "client attempt = (ys, Some e')"
    by (cases "client attempt") (auto dest: spec [where x = attempt])
  from lt Suc.prems have nr: "\<not> int (attempt + 1) > retries" by simp
  have "fetch_loop client retries (attempt + 1) (items @ map as_item ys) = Inl e"
    using Suc.hyps(2) Suc.prems lt by (intro Suc.hyps(1)) auto
  then show ?case
    using c nr by (subst fetch_loop.simps) simp
qed

lemma fetch_aggregates_within_budget:
  assumes "\<forall>k < n. snd (client k) \<noteq> None" and "snd (client n) = None" and "int n \<le> retries"
  shows "fetch_aggregates client retries =
           Inr (concat (map (\<lambda>k. map as_item (fst (client k))) [0..<Suc n]))"
  using fetch_loop_succeeds [of 0 n client retries "[]"] assms
  by (simp add: fetch_aggregates_def)

lemma fetch_aggregates_budget_exceeded:
  assumes "\<forall>k \<le> n. snd (client k) \<noteq> None" and "snd (client n) = Some e" and "retries = int n"
  shows "fetch_aggregates client retries = Inl e"
  using fetch_loop_fails [of 0 n client e retries "[]"] assms
  by (simp add: fetch_aggregates_def)

text \<open>When no failed walk yields a record, the result is the records of the last walk.\<close>

lemma fetch_aggregates_no_partial_yield:
  assumes "\<forall>k < n. \<exists>e. client k = ([], Some e)" and "client n = (ys, None)" and "int n \<le> retries"
  shows "fetch_aggregates client retries = Inr (map as_item ys)"
proof -
  from assms(1) have a: "\<forall>k < n. snd (client k) \<noteq> None" by auto
  from assms(2) have b: "snd (client n) = None" by simp
  have "concat (map (\<lambda>k. map as_item (fst (client k))) [0..<n]) = []"
    using assms(1) by (auto simp: concat_eq_Nil_conv)
  with fetch_aggregates_within_budget [OF a b assms(3)] assms(2)
  show ?thesis by simp
qed

text \<open>
  C5. A client fails three times and then succeeds; each failed walk yields the first
  record before it raises (the first page arrives, the request for the second is
  refused), and the fourth walk yields both records. With a budget of 5
  \<open>fetch_aggregates\<close> returns, but not the two records of the range: the first record
  is returned four times.
\<close>

theorem fetch_aggregates_repeats_records:
  "fetch_aggregates
     (\<lambda>k. if k < 3 then ([PDict [(''t'', PInt 1700000000000)]], Some (OtherError ''429 Too Many Requests''))
          else ([PDict [(''t'', PInt 1700000000000)], PDict [(''t'', PInt 1700000060000)]], None))
     5 =
   Inr [PDict [(''t'', PInt 1700000000000)], PDict [(''t'', PInt 1700000000000)],
        PDict [(''t'', PInt 1700000000000)], PDict [(''t'', PInt 1700000000000)],
        PDict [(''t'', PInt 1700000060000)]]"
  by (simp add: fetch_aggregates_def fetch_loop.simps as_item_def)

end
